theory Spec2Isabelle
  imports Complex_Main
begin

section \<open>Data model\<close>

text \<open>
  The planner computes with C++ \<^verbatim>\<open>double\<close>. A \<^verbatim>\<open>double\<close> is the real number it
  stands for, and a comparison of two doubles is the comparison of these numbers.
  The result of a double operation is the exact result rounded to a double: where the
  source accumulates such results (the sampling loop of \<^verbatim>\<open>GetTrajectory\<close>, the average
  of \<^verbatim>\<open>SetTerrainHeightFromAvgFootholdHeight\<close>) the rounding is a parameter
  \<open>rnd :: real \<Rightarrow> real\<close>, so that \<^verbatim>\<open>a + b\<close> is \<open>rnd (a + b)\<close>, \<^verbatim>\<open>a / b\<close> is \<open>rnd (a / b)\<close> and
  the literal \<^verbatim>\<open>1e-5\<close> is \<open>rnd (1 / 100000)\<close>. Exact arithmetic is the rounding
  \<open>\<lambda>x. x\<close>. Attitude normalization is read in exact arithmetic, with the libc constant
  \<^verbatim>\<open>M_PI\<close> as the number \<open>pi\<close>. Member names of the source end in an underscore
  (\<^verbatim>\<open>params_\<close>, \<^verbatim>\<open>t_global_\<close>); that underscore is dropped here, the rest of the
  name is kept.
\<close>

definition M_PI :: real where
  "M_PI = pi"

text \<open>Eigen's \<^verbatim>\<open>Vector3d\<close>, read through its accessors \<^verbatim>\<open>x()\<close>, \<^verbatim>\<open>y()\<close>, \<^verbatim>\<open>z()\<close>.\<close>

record Vector3d =
  vx :: real
  vy :: real
  vz :: real

section \<open>Attitude normalization: \<^verbatim>\<open>TOWR::GetUnique\<close> (towr.cc, lines 172-228)\<close>

text \<open>
  The five branches of the source in their order; each branch performs the source's
  assignments one after the other on the local copy \<^verbatim>\<open>zyx\<close>. The function has no loop,
  no division by a variable and no \<^verbatim>\<open>throw\<close>: every path reaches \<^verbatim>\<open>return zyx\<close>.
\<close>

definition GetUnique :: "Vector3d \<Rightarrow> Vector3d" where
  "GetUnique zyx_non_unique =
    (let zyx = zyx_non_unique;
         tol = 1 / 1000
     in
       if vy zyx < - M_PI / 2 - tol then
         (let zyx = (if vx zyx < 0 then zyx\<lparr>vx := vx zyx + M_PI\<rparr>
                     else zyx\<lparr>vx := vx zyx - M_PI\<rparr>);
              zyx = zyx\<lparr>vy := - (vy zyx + M_PI)\<rparr>;
              zyx = (if vz zyx < 0 then zyx\<lparr>vz := vz zyx + M_PI\<rparr>
                     else zyx\<lparr>vz := vz zyx - M_PI\<rparr>)
          in zyx)
       else if - M_PI / 2 - tol \<le> vy zyx \<and> vy zyx \<le> - M_PI / 2 + tol then
         (let zyx = zyx\<lparr>vx := vx zyx - vz zyx\<rparr>;
              zyx = zyx\<lparr>vz := 0\<rparr>
          in zyx)
       else if - M_PI / 2 + tol < vy zyx \<and> vy zyx < M_PI / 2 - tol then
         zyx
       else if M_PI / 2 - tol \<le> vy zyx \<and> vy zyx \<le> M_PI / 2 + tol then
         (let zyx = zyx\<lparr>vx := vx zyx + vz zyx\<rparr>;
              zyx = zyx\<lparr>vz := 0\<rparr>
          in zyx)
       else
         (let zyx = (if vx zyx < 0 then zyx\<lparr>vx := vx zyx + M_PI\<rparr>
                     else zyx\<lparr>vx := vx zyx - M_PI\<rparr>);
              zyx = zyx\<lparr>vy := - (vy zyx - M_PI)\<rparr>;
              zyx = (if vz zyx < 0 then zyx\<lparr>vz := vz zyx + M_PI\<rparr>
                     else zyx\<lparr>vz := vz zyx - M_PI\<rparr>)
          in zyx))"

section \<open>Robot states and the optimization variables\<close>

text \<open>
  The state types of the header \<^verbatim>\<open>xpp/state.h\<close>, which is not among the sources: only the
  members that \<^verbatim>\<open>towr.cc\<close> reads or assigns are kept. A container
  \<^verbatim>\<open>Endeffectors<T>\<close> is the list of its entries, indexed by the end-effector number:
  \<^verbatim>\<open>GetEECount\<close> is its length, \<^verbatim>\<open>GetEEsOrdered\<close> lists its indices in increasing
  order and \<^verbatim>\<open>ToImpl\<close> is the list itself.
\<close>

record StateLin3d =
  lin_p :: Vector3d
  lin_v :: Vector3d
  lin_a :: Vector3d

record StateAng3d =
  ang_q :: "real \<times> real \<times> real \<times> real"
  ang_w :: Vector3d
  ang_wd :: Vector3d

record State3d =
  lin :: StateLin3d
  ang :: StateAng3d

record State3dEuler =
  euler_lin :: StateLin3d
  euler_ang :: StateLin3d

record RobotStateCartesian =
  base :: State3d
  ee_motion :: "StateLin3d list"
  ee_contact :: "bool list"
  ee_forces :: "Vector3d list"
  t_global :: real

definition GetEECount :: "'a list \<Rightarrow> nat" where
  "GetEECount ees = length ees"

definition GetEEsOrdered :: "'a list \<Rightarrow> nat list" where
  "GetEEsOrdered ees = [0..<length ees]"

definition ToImpl :: "'a list \<Rightarrow> 'a list" where
  "ToImpl ees = ees"

definition zero_Vector3d :: Vector3d where
  "zero_Vector3d = \<lparr>vx = 0, vy = 0, vz = 0\<rparr>"

definition zero_StateLin3d :: StateLin3d where
  "zero_StateLin3d = \<lparr>lin_p = zero_Vector3d, lin_v = zero_Vector3d, lin_a = zero_Vector3d\<rparr>"

text \<open>
  The constructor \<^verbatim>\<open>RobotStateCartesian(n_ee)\<close>: three containers of \<^verbatim>\<open>n_ee\<close> entries
  each. The initial entries (zero vectors, no contact, the identity quaternion) are
  never read by \<^verbatim>\<open>GetTrajectory\<close>, which assigns every member before it stores the
  state.
\<close>

definition RobotStateCartesian_init :: "nat \<Rightarrow> RobotStateCartesian" where
  "RobotStateCartesian_init n_ee =
    \<lparr>base = \<lparr>lin = zero_StateLin3d,
              ang = \<lparr>ang_q = (1, 0, 0, 0), ang_w = zero_Vector3d, ang_wd = zero_Vector3d\<rparr>\<rparr>,
     ee_motion = replicate n_ee zero_StateLin3d,
     ee_contact = replicate n_ee False,
     ee_forces = replicate n_ee zero_Vector3d,
     t_global = 0\<rparr>"

text \<open>
  The components of the variable composite, as \<^verbatim>\<open>towr.cc\<close> queries them. Their classes
  (\<^verbatim>\<open>Spline\<close>, \<^verbatim>\<open>PhaseNodes\<close>, \<^verbatim>\<open>ContactSchedule\<close>, the composite and the names of
  namespace \<^verbatim>\<open>id\<close>) are declared outside the sources, so a component is the record of
  its query functions: whatever a spline is made of, \<^verbatim>\<open>GetPoint(t)\<close> returns a state
  for each time. \<^verbatim>\<open>PhaseNodes\<close> answers \<^verbatim>\<open>GetPoint\<close> as a spline does and
  \<^verbatim>\<open>IsConstantPhase\<close> besides. \<^verbatim>\<open>GetComponent<T>(id)\<close> is the lookup of the component
  of class \<^verbatim>\<open>T\<close> under a name.
\<close>

datatype ComponentId =
    base_linear
  | base_angular
  | GetEEMotionId nat
  | GetEEForceId nat
  | GetEEScheduleId nat

record Spline =
  GetPoint :: "real \<Rightarrow> StateLin3d"

record PhaseNodes = Spline +
  IsConstantPhase :: "real \<Rightarrow> bool"

record ContactSchedule =
  IsInContact :: "real \<Rightarrow> bool"

record Composite =
  GetComponent_Spline :: "ComponentId \<Rightarrow> Spline"
  GetComponent_PhaseNodes :: "ComponentId \<Rightarrow> PhaseNodes"
  GetComponent_ContactSchedule :: "ComponentId \<Rightarrow> ContactSchedule"

text \<open>
  The solved problem \<^verbatim>\<open>nlp_\<close>: the number of iterations the solver took
  (a C++ \<^verbatim>\<open>int\<close>), the variables of each iteration and the current variables.
\<close>

record Problem =
  GetIterationCount :: int
  GetOptVariables_iter :: "int \<Rightarrow> Composite"
  GetOptVariables :: Composite

text \<open>
  \<^verbatim>\<open>MotionParameters\<close> is declared outside the sources: \<^verbatim>\<open>SetTotalDuration\<close> stores the
  duration that \<^verbatim>\<open>GetTotalTime\<close> returns.
\<close>

record MotionParameters =
  total_time :: real

definition SetTotalDuration :: "MotionParameters \<Rightarrow> real \<Rightarrow> MotionParameters" where
  "SetTotalDuration params d = params\<lparr>total_time := d\<rparr>"

definition GetTotalTime :: "MotionParameters \<Rightarrow> real" where
  "GetTotalTime params = total_time params"

text \<open>
  \<^verbatim>\<open>RobotModel\<close> is declared outside the sources and \<^verbatim>\<open>towr.cc\<close> only copies it: the
  planner is generic in the type \<open>'m\<close> of the robot model.
\<close>

text \<open>
  The class \<^verbatim>\<open>HeightMap\<close> and its method \<^verbatim>\<open>SetGroundHeight\<close> are not among the sources.
  A terrain object is a value of an arbitrary type \<open>'h\<close>, and \<^verbatim>\<open>SetGroundHeight\<close> is a
  parameter of the methods that call it: a function \<open>SetGroundHeight h hm\<close> from the
  height \<open>h\<close> and the object \<open>hm\<close> before the call to the object after the call.

  \<^verbatim>\<open>HeightMap::Ptr\<close> is a shared pointer: the caller of \<^verbatim>\<open>SetParameters\<close> and the member
  \<^verbatim>\<open>terrain_\<close> name the same object. A pointer is an address, and the terrain objects
  live in a store from addresses to objects; an address with no object stands for a
  null pointer.
\<close>

type_synonym HeightMap_Ptr = nat

type_synonym 'h terrain_store = "HeightMap_Ptr \<rightharpoonup> 'h"

record 'm TOWR =
  inital_base :: State3dEuler
  final_base :: State3dEuler
  initial_ee_W :: "Vector3d list"
  params :: MotionParameters
  model :: 'm
  terrain :: HeightMap_Ptr
  nlp :: Problem

section \<open>\<^verbatim>\<open>TOWR::SetParameters\<close> (towr.cc, lines 32-49 and 133-140)\<close>

text \<open>
  The loop of lines 136-138 accumulates, foothold by foothold, the quotient of the
  foothold's height by the number of footholds; both the division and the addition
  are double operations. The number of footholds is an \<^verbatim>\<open>int\<close>, converted to a double
  without rounding.
\<close>

definition avg_height :: "(real \<Rightarrow> real) \<Rightarrow> Vector3d list \<Rightarrow> real" where
  "avg_height rnd initial_ee_W_arg =
    foldl (\<lambda>avg_height pos. rnd (avg_height + rnd (vz pos / real (GetEECount initial_ee_W_arg))))
      0 (ToImpl initial_ee_W_arg)"

text \<open>
  \<^verbatim>\<open>SetTerrainHeightFromAvgFootholdHeight\<close> is a \<^verbatim>\<open>const\<close> method: it changes no member
  of the planner, but it calls \<^verbatim>\<open>SetGroundHeight\<close> on the object its argument points to.
  The result is the new store, or \<open>None\<close> when the pointer names no object (the source
  would dereference a null pointer).
\<close>

definition SetTerrainHeightFromAvgFootholdHeight ::
    "(real \<Rightarrow> real) \<Rightarrow> (real \<Rightarrow> 'h \<Rightarrow> 'h) \<Rightarrow> 'm TOWR \<Rightarrow> HeightMap_Ptr \<Rightarrow> 'h terrain_store
      \<Rightarrow> 'h terrain_store option" where
  "SetTerrainHeightFromAvgFootholdHeight rnd SetGroundHeight towr terrain_ptr store =
    (let avg = avg_height rnd (initial_ee_W towr)
     in case store terrain_ptr of
          None \<Rightarrow> None
        | Some hm \<Rightarrow> Some (store(terrain_ptr \<mapsto> SetGroundHeight avg hm)))"

definition SetParameters ::
    "(real \<Rightarrow> real) \<Rightarrow> (real \<Rightarrow> 'h \<Rightarrow> 'h) \<Rightarrow> State3dEuler \<Rightarrow> real \<Rightarrow> 'm \<Rightarrow> HeightMap_Ptr
      \<Rightarrow> 'm TOWR \<times> 'h terrain_store \<Rightarrow> ('m TOWR \<times> 'h terrain_store) option" where
  "SetParameters rnd SetGroundHeight final_base_arg total_time_arg model_arg terrain_arg state =
    (let (towr, store) = state;
         towr = towr\<lparr>final_base := final_base_arg\<rparr>;
         towr = towr\<lparr>params := SetTotalDuration (params towr) total_time_arg\<rparr>;
         towr = towr\<lparr>model := model_arg\<rparr>;
         towr = towr\<lparr>terrain := terrain_arg\<rparr>
     in case SetTerrainHeightFromAvgFootholdHeight rnd SetGroundHeight towr (terrain towr) store of
          None \<Rightarrow> None
        | Some store' \<Rightarrow> Some (towr, store'))"

section \<open>\<^verbatim>\<open>TOWR::GetTrajectory\<close> (towr.cc, lines 102-131)\<close>

text \<open>
  The method, with the effects the source can have. The argument \<^verbatim>\<open>vars\<close> points to the
  composite that holds the variable assignment; its state is a value of an arbitrary
  type \<open>'v\<close>. The methods the body calls on it (\<^verbatim>\<open>GetComponent\<close>, \<^verbatim>\<open>GetPoint\<close>,
  \<^verbatim>\<open>IsConstantPhase\<close>) are not among the sources: each is a parameter that takes the name
  of the component, the time and the state of the composite, and returns its answer
  and the state of the composite after the call, so a query that writes is a possible
  value of the parameter. \<^verbatim>\<open>AngularStateConverter::GetState\<close> is a static function of
  its argument, not among the sources, and a parameter as well.
\<close>

record 'v Queries =
  Spline_GetPoint :: "ComponentId \<Rightarrow> real \<Rightarrow> 'v \<Rightarrow> StateLin3d \<times> 'v"
  PhaseNodes_GetPoint :: "ComponentId \<Rightarrow> real \<Rightarrow> 'v \<Rightarrow> StateLin3d \<times> 'v"
  PhaseNodes_IsConstantPhase :: "ComponentId \<Rightarrow> real \<Rightarrow> 'v \<Rightarrow> bool \<times> 'v"

text \<open>
  The body of the inner \<^verbatim>\<open>for\<close> loop (lines 119-122), for one end-effector: three
  queries in the order of the source, each on the state the previous one left. The
  inner loop runs over the indices of \<^verbatim>\<open>state.ee_motion_\<close>; the three containers of the
  state have the same length, so every \<^verbatim>\<open>at(ee)\<close> is within range and the assignment is
  the list update.
\<close>

definition TOWR_GetTrajectory_ee ::
    "'v Queries \<Rightarrow> real \<Rightarrow> RobotStateCartesian \<times> 'v \<Rightarrow> nat \<Rightarrow> RobotStateCartesian \<times> 'v" where
  "TOWR_GetTrajectory_ee Q t state_vars ee =
    (let (state, vars) = state_vars;
         (contact, vars) = PhaseNodes_IsConstantPhase Q (GetEEMotionId ee) t vars;
         state = state\<lparr>ee_contact := (ee_contact state)[ee := contact]\<rparr>;
         (motion, vars) = PhaseNodes_GetPoint Q (GetEEMotionId ee) t vars;
         state = state\<lparr>ee_motion := (ee_motion state)[ee := motion]\<rparr>;
         (force, vars) = Spline_GetPoint Q (GetEEForceId ee) t vars;
         state = state\<lparr>ee_forces := (ee_forces state)[ee := lin_p force]\<rparr>
     in (state, vars))"

text \<open>The body of the \<^verbatim>\<open>while\<close> loop (lines 112-126) without the step \<^verbatim>\<open>t += dt\<close>.\<close>

definition TOWR_GetTrajectory_state ::
    "'v Queries \<Rightarrow> (StateLin3d \<Rightarrow> StateAng3d) \<Rightarrow> 'm TOWR \<Rightarrow> real \<Rightarrow> 'v
      \<Rightarrow> RobotStateCartesian \<times> 'v" where
  "TOWR_GetTrajectory_state Q GetState towr t vars =
    (let state = RobotStateCartesian_init (GetEECount (initial_ee_W towr));
         (point, vars) = Spline_GetPoint Q base_linear t vars;
         state = state\<lparr>base := (base state)\<lparr>lin := point\<rparr>\<rparr>;
         (point, vars) = Spline_GetPoint Q base_angular t vars;
         state = state\<lparr>base := (base state)\<lparr>ang := GetState point\<rparr>\<rparr>;
         (state, vars) = foldl (TOWR_GetTrajectory_ee Q t) (state, vars)
                           (GetEEsOrdered (ee_motion state));
         state = state\<lparr>t_global := t\<rparr>
     in (state, vars))"

text \<open>
  The \<^verbatim>\<open>while\<close> loop (lines 110-128). The bound \<^verbatim>\<open>T+1e-5\<close> and the step \<^verbatim>\<open>t += dt\<close> are
  double operations. A loop that is never left is a call that does not return: the
  loop is a partial function and \<open>None\<close> is the call that does not return.
\<close>

partial_function (option) TOWR_GetTrajectory_while ::
    "(real \<Rightarrow> real) \<Rightarrow> (real \<Rightarrow> 'v \<Rightarrow> RobotStateCartesian \<times> 'v) \<Rightarrow> real \<Rightarrow> real \<Rightarrow> real
      \<Rightarrow> RobotStateCartesian list \<Rightarrow> 'v \<Rightarrow> (RobotStateCartesian list \<times> 'v) option" where
  "TOWR_GetTrajectory_while rnd body dt T t trajectory vars =
    (if t \<le> rnd (T + rnd (1 / 100000))
     then TOWR_GetTrajectory_while rnd body dt T (rnd (t + dt))
            (trajectory @ [fst (body t vars)]) (snd (body t vars))
     else Some (trajectory, vars))"

definition TOWR_GetTrajectory ::
    "(real \<Rightarrow> real) \<Rightarrow> 'v Queries \<Rightarrow> (StateLin3d \<Rightarrow> StateAng3d) \<Rightarrow> 'm TOWR \<Rightarrow> 'v \<Rightarrow> real
      \<Rightarrow> (RobotStateCartesian list \<times> 'v) option" where
  "TOWR_GetTrajectory rnd Q GetState towr vars dt =
    (let trajectory = [];
         t = 0;
         T = GetTotalTime (params towr)
     in TOWR_GetTrajectory_while rnd (TOWR_GetTrajectory_state Q GetState towr) dt T t
          trajectory vars)"

text \<open>
  The times the loop visits: \<open>sample_time rnd dt k\<close> is the value of \<^verbatim>\<open>t\<close> after \<open>k\<close>
  executions of \<^verbatim>\<open>t += dt\<close>, starting from \<^verbatim>\<open>t=0.0\<close>.
\<close>

definition sample_time :: "(real \<Rightarrow> real) \<Rightarrow> real \<Rightarrow> nat \<Rightarrow> real" where
  "sample_time rnd dt k = ((\<lambda>t. rnd (t + dt)) ^^ k) 0"

text \<open>A query is read-only when it hands back the state of the composite it was given.\<close>

definition read_only :: "'v Queries \<Rightarrow> bool" where
  "read_only Q \<longleftrightarrow>
    (\<forall>name t vars. snd (Spline_GetPoint Q name t vars) = vars) \<and>
    (\<forall>name t vars. snd (PhaseNodes_GetPoint Q name t vars) = vars) \<and>
    (\<forall>name t vars. snd (PhaseNodes_IsConstantPhase Q name t vars) = vars)"

text \<open>
  The method in exact arithmetic over a composite whose components answer without
  writing: the state of the composite is the record of its components, and each
  query looks the component up and asks it.
\<close>

definition Composite_queries :: "Composite Queries" where
  "Composite_queries =
    \<lparr>Spline_GetPoint = (\<lambda>name t vars. (GetPoint (GetComponent_Spline vars name) t, vars)),
     PhaseNodes_GetPoint = (\<lambda>name t vars. (GetPoint (GetComponent_PhaseNodes vars name) t, vars)),
     PhaseNodes_IsConstantPhase =
       (\<lambda>name t vars. (IsConstantPhase (GetComponent_PhaseNodes vars name) t, vars))\<rparr>"

text \<open>
  With these queries and the rounding \<open>\<lambda>x. x\<close> the state of the composite is never
  changed and need not be passed on: the definitions that follow are the body and
  the loop in that reading, and \<open>GetTrajectory\<close> returns what \<open>TOWR_GetTrajectory\<close> returns
  there (lemma \<open>TOWR_GetTrajectory_exact\<close>). \<open>GetTrajectory_ee\<close> is the body of the inner
  \<^verbatim>\<open>for\<close> loop, for one end-effector.
\<close>

definition GetTrajectory_ee :: "Composite \<Rightarrow> real \<Rightarrow> RobotStateCartesian \<Rightarrow> nat \<Rightarrow> RobotStateCartesian" where
  "GetTrajectory_ee vars t state ee =
    (let ee_motion_nodes = GetComponent_PhaseNodes vars (GetEEMotionId ee);
         state = state\<lparr>ee_contact := (ee_contact state)[ee := IsConstantPhase ee_motion_nodes t]\<rparr>;
         state = state\<lparr>ee_motion := (ee_motion state)[ee := GetPoint ee_motion_nodes t]\<rparr>;
         state = state\<lparr>ee_forces := (ee_forces state)
                   [ee := lin_p (GetPoint (GetComponent_Spline vars (GetEEForceId ee)) t)]\<rparr>
     in state)"

definition GetTrajectory_state ::
    "(StateLin3d \<Rightarrow> StateAng3d) \<Rightarrow> 'm TOWR \<Rightarrow> Composite \<Rightarrow> real \<Rightarrow> RobotStateCartesian" where
  "GetTrajectory_state GetState towr vars t =
    (let state = RobotStateCartesian_init (GetEECount (initial_ee_W towr));
         state = state\<lparr>base := (base state)
                   \<lparr>lin := GetPoint (GetComponent_Spline vars base_linear) t\<rparr>\<rparr>;
         state = state\<lparr>base := (base state)
                   \<lparr>ang := GetState (GetPoint (GetComponent_Spline vars base_angular) t)\<rparr>\<rparr>;
         state = foldl (GetTrajectory_ee vars t) state (GetEEsOrdered (ee_motion state));
         state = state\<lparr>t_global := t\<rparr>
     in state)"

text \<open>
  The \<^verbatim>\<open>while\<close> loop in exact arithmetic. With a step \<open>dt \<le> 0\<close> it is never left, so it
  is a partial function as well.
\<close>

partial_function (option) GetTrajectory_while ::
    "(real \<Rightarrow> RobotStateCartesian) \<Rightarrow> real \<Rightarrow> real \<Rightarrow> real \<Rightarrow> RobotStateCartesian list
      \<Rightarrow> RobotStateCartesian list option" where
  "GetTrajectory_while body dt T t trajectory =
    (if t \<le> T + 1 / 100000
     then GetTrajectory_while body dt T (t + dt) (trajectory @ [body t])
     else Some trajectory)"

definition GetTrajectory ::
    "(StateLin3d \<Rightarrow> StateAng3d) \<Rightarrow> 'm TOWR \<Rightarrow> Composite \<Rightarrow> real
      \<Rightarrow> RobotStateCartesian list option" where
  "GetTrajectory GetState towr vars dt =
    (let trajectory = [];
         t = 0;
         T = GetTotalTime (params towr)
     in GetTrajectory_while (GetTrajectory_state GetState towr vars) dt T t trajectory)"

text \<open>The overload of lines 96-100: the trajectory of the current variables.\<close>

definition GetTrajectory_current ::
    "(StateLin3d \<Rightarrow> StateAng3d) \<Rightarrow> 'm TOWR \<Rightarrow> real \<Rightarrow> RobotStateCartesian list option" where
  "GetTrajectory_current GetState towr dt =
    GetTrajectory GetState towr (GetOptVariables (nlp towr)) dt"

section \<open>\<^verbatim>\<open>TOWR::GetIntermediateSolutions\<close> (towr.cc, lines 83-94)\<close>



section \<open>Quadratic cost (\<^verbatim>\<open>xpp/opt/polynomial_cost.h\<close>)\<close>

text \<open>
  The header declares \<^verbatim>\<open>QuadraticPolynomialCost\<close> with its members \<^verbatim>\<open>weight_\<close>,
  \<^verbatim>\<open>com_motion_\<close> and \<^verbatim>\<open>matrix_vector_\<close>; the bodies of \<^verbatim>\<open>GetValues\<close> and
  \<^verbatim>\<open>FillJacobianWithRespectTo\<close> are not among the sources. Eigen's dynamic vectors and
  matrices are lists of reals and lists of rows.
\<close>

type_synonym VectorXd = "real list"

type_synonym MatrixXd = "real list list"

definition dot :: "VectorXd \<Rightarrow> VectorXd \<Rightarrow> real" where
  "dot a b = sum_list (map2 (*) a b)"

definition mat_vec :: "MatrixXd \<Rightarrow> VectorXd \<Rightarrow> VectorXd" where
  "mat_vec A x = map (\<lambda>row. dot row x) A"

record MatVec =
  mat_M :: MatrixXd
  vec_v :: VectorXd

record BaseMotion =
  GetID :: string
  GetCoefficients :: VectorXd

record QuadraticPolynomialCost =
  weight :: real
  com_motion :: BaseMotion
  matrix_vector :: MatVec

text \<open>
  Modelled from the spec: the body of \<^verbatim>\<open>QuadraticPolynomialCost::GetValues\<close> is missing.
  Section 4.6 and the header's comment give the cost \<open>x\<^sup>T M x + v\<^sup>T x\<close>, scaled by the
  configured weight, where \<open>x\<close> is read from the coefficient representation of the
  bound spline. The value is a vector with one row.
\<close>

definition GetValues :: "QuadraticPolynomialCost \<Rightarrow> VectorXd" where
  "GetValues c =
    (let x = GetCoefficients (com_motion c);
         cost = dot x (mat_vec (mat_M (matrix_vector c)) x) + dot (vec_v (matrix_vector c)) x
     in [weight c * cost])"

text \<open>
  Modelled from the spec: the body of \<^verbatim>\<open>QuadraticPolynomialCost::FillJacobianWithRespectTo\<close>
  is missing. Section 4.6 gives the derivative \<open>weight * (2 M x + v)\<close> with respect to
  the variables of the owning spline and zero with respect to every other block: the
  row of the Jacobian is overwritten for the owning variable set and left as it is
  (all zero, as the caller hands it in) for any other.
\<close>

definition FillJacobianWithRespectTo :: "QuadraticPolynomialCost \<Rightarrow> string \<Rightarrow> VectorXd \<Rightarrow> VectorXd" where
  "FillJacobianWithRespectTo c var_set jac =
    (if var_set = GetID (com_motion c)
     then
       (let x = GetCoefficients (com_motion c);
            grad = map2 (\<lambda>Mx v. 2 * Mx + v) (mat_vec (mat_M (matrix_vector c)) x)
                     (vec_v (matrix_vector c))
        in map (\<lambda>d. weight c * d) grad)
     else jac)"

definition GetJacobianWithRespectTo :: "QuadraticPolynomialCost \<Rightarrow> string \<Rightarrow> nat \<Rightarrow> VectorXd" where
  "GetJacobianWithRespectTo c var_set n_var = FillJacobianWithRespectTo c var_set (replicate n_var 0)"

section \<open>Convexity constraint (\<^verbatim>\<open>xpp/opt/constraints/convexity_constraint.h\<close>)\<close>

text \<open>
  The header declares \<^verbatim>\<open>ConvexityConstraint\<close> with its member \<^verbatim>\<open>ee_load_\<close> and the two
  methods \<^verbatim>\<open>UpdateConstraintValues\<close> and \<^verbatim>\<open>UpdateBounds\<close>; their bodies and the classes
  \<^verbatim>\<open>EndeffectorLoad\<close>, \<^verbatim>\<open>Constraint\<close> and \<^verbatim>\<open>Bound\<close> are not among the sources. The load
  variables are the list, over the sampled times, of the load fractions of the legs
  at that time; the constraint keeps its values \<^verbatim>\<open>g_\<close> and its bounds.
\<close>

record Bound =
  lower :: real
  upper :: real

record EndeffectorLoad =
  lambdas :: "real list list"

record ConvexityConstraint =
  ee_load :: EndeffectorLoad
  g :: "real list"
  bounds :: "Bound list"

text \<open>
  Modelled from the spec: the body of \<^verbatim>\<open>ConvexityConstraint::UpdateConstraintValues\<close> is
  missing. Section 4.5: at each sampled time the row value is the sum over all legs
  of that leg's load fraction; the header's comment writes it as
  \<^verbatim>\<open>g[t_k] = lambda_LF + lambda_RF + lambda_LH + lambda_RF = 1\<close>. The sum is accumulated leg by
  leg, from zero.
\<close>

definition UpdateConstraintValues :: "ConvexityConstraint \<Rightarrow> ConvexityConstraint" where
  "UpdateConstraintValues c =
    c\<lparr>g := map (\<lambda>lambda_k. foldl (\<lambda>sum_k lambda_ee. sum_k + lambda_ee) 0 lambda_k)
               (lambdas (ee_load c))\<rparr>"

text \<open>
  Modelled from the spec: the body of \<^verbatim>\<open>ConvexityConstraint::UpdateBounds\<close> is missing.
  Section 4.5: the bound of every row is an equality at \<open>1\<close>.
\<close>

definition UpdateBounds :: "ConvexityConstraint \<Rightarrow> ConvexityConstraint" where
  "UpdateBounds c =
    c\<lparr>bounds := replicate (length (lambdas (ee_load c))) \<lparr>lower = 1, upper = 1\<rparr>\<rparr>"

section \<open>Example objects\<close>

text \<open>
  A planner with two end-effectors and a total time of one second, a composite whose
  first leg stands for the first half second, and a store holding one flat terrain.
\<close>

definition example_GetState :: "StateLin3d \<Rightarrow> StateAng3d" where
  "example_GetState s = \<lparr>ang_q = (1, 0, 0, 0), ang_w = lin_v s, ang_wd = lin_a s\<rparr>"

definition example_State3dEuler :: State3dEuler where
  "example_State3dEuler = \<lparr>euler_lin = zero_StateLin3d, euler_ang = zero_StateLin3d\<rparr>"

definition example_Composite :: Composite where
  "example_Composite =
    \<lparr>GetComponent_Spline = (\<lambda>name. \<lparr>GetPoint = (\<lambda>t. zero_StateLin3d)\<rparr>),
     GetComponent_PhaseNodes =
       (\<lambda>name. \<lparr>GetPoint = (\<lambda>t. zero_StateLin3d),
                  IsConstantPhase = (\<lambda>t. name = GetEEMotionId 0 \<and> t \<le> 1 / 2)\<rparr>),
     GetComponent_ContactSchedule = (\<lambda>name. \<lparr>IsInContact = (\<lambda>t. False)\<rparr>)\<rparr>"

definition example_Problem :: Problem where
  "example_Problem =
    \<lparr>GetIterationCount = 2,
     GetOptVariables_iter = (\<lambda>iter. example_Composite),
     GetOptVariables = example_Composite\<rparr>"

definition example_TOWR :: "unit TOWR" where
  "example_TOWR =
    \<lparr>inital_base = example_State3dEuler,
     final_base = example_State3dEuler,
     initial_ee_W = [\<lparr>vx = 0, vy = 0, vz = 1\<rparr>, \<lparr>vx = 1, vy = 0, vz = 3\<rparr>],
     params = \<lparr>total_time = 1\<rparr>,
     model = (),
     terrain = 0,
     nlp = example_Problem\<rparr>"

text \<open>
  A rounding that is not exact: to the nearest multiple of \<open>1 / 2 ^ 52\<close>, the spacing of
  the doubles between \<open>1\<close> and \<open>2\<close>.
\<close>

definition example_rnd :: "real \<Rightarrow> real" where
  "example_rnd x = real_of_int \<lfloor>x * 2 ^ 52 + 1 / 2\<rfloor> / 2 ^ 52"

text \<open>
  A terrain for the examples: flat ground with a height and a friction coefficient,
  and a \<^verbatim>\<open>SetGroundHeight\<close> that stores the height.
\<close>

record FlatTerrain =
  ground_height :: real
  friction_coeff :: real

definition FlatTerrain_SetGroundHeight :: "real \<Rightarrow> FlatTerrain \<Rightarrow> FlatTerrain" where
  "FlatTerrain_SetGroundHeight h hm = hm\<lparr>ground_height := h\<rparr>"

definition example_store :: "FlatTerrain terrain_store" where
  "example_store = Map.empty(0 \<mapsto> \<lparr>ground_height = 0, friction_coeff = 1\<rparr>)"

text \<open>
  Queries that write: the state of the composite is a counter of the calls made so
  far, every query adds one to it, and \<^verbatim>\<open>IsConstantPhase\<close> answers whether fewer
  than three calls were made before.
\<close>

definition counting_queries :: "nat Queries" where
  "counting_queries =
    \<lparr>Spline_GetPoint = (\<lambda>name t calls. (zero_StateLin3d, Suc calls)),
     PhaseNodes_GetPoint = (\<lambda>name t calls. (zero_StateLin3d, Suc calls)),
     PhaseNodes_IsConstantPhase = (\<lambda>name t calls. (calls < 3, Suc calls))\<rparr>"

text \<open>The scenario of the quadratic cost: identity matrix, zero vector, weight two.\<close>

definition example_cost :: QuadraticPolynomialCost where
  "example_cost =
    \<lparr>weight = 2,
     com_motion = \<lparr>GetID = ''base_motion'', GetCoefficients = [1, 1]\<rparr>,
     matrix_vector = \<lparr>mat_M = [[1, 0], [0, 1]], vec_v = [0, 0]\<rparr>\<rparr>"

text \<open>A convexity constraint over two sampled times and four legs.\<close>

definition example_convexity :: ConvexityConstraint where
  "example_convexity =
    \<lparr>ee_load = \<lparr>lambdas = [[1 / 4, 1 / 4, 1 / 4, 1 / 4], [1 / 2, 0, 1 / 2, 1]]\<rparr>,
     g = [],
     bounds = []\<rparr>"

section \<open>Values of the example rounding\<close>

lemma example_rnd_values:
  "example_rnd 0 = 0" "example_rnd (1 / 2) = 1 / 2" "example_rnd 1 = 1"
  "example_rnd (3 / 2) = 3 / 2" "example_rnd 2 = 2"
  "example_rnd (1 / 100000) = 45035996274 / 2 ^ 52"
  "example_rnd (1 + example_rnd (1 / 100000)) = 4503644663366770 / 2 ^ 52"
  by (simp_all add: example_rnd_def)

lemma GetTotalTime_example_TOWR: "GetTotalTime (params example_TOWR) = 1"
  by (simp add: GetTotalTime_def example_TOWR_def)

section \<open>Properties of attitude normalization\<close>

lemma M_PI_bounds: "2 \<le> M_PI" "M_PI < 4"
  using pi_ge_two pi_less_4 by (simp_all add: M_PI_def)

text \<open>The result, branch by branch, as plain equations on the three components.\<close>

lemma GetUnique_below:
  assumes "vy v < - M_PI / 2 - 1 / 1000"
  shows "GetUnique v =
    \<lparr>vx = (if vx v < 0 then vx v + M_PI else vx v - M_PI),
     vy = - (vy v + M_PI),
     vz = (if vz v < 0 then vz v + M_PI else vz v - M_PI)\<rparr>"
  using assms by (cases v) (simp add: GetUnique_def Let_def)

lemma GetUnique_lower_band:
  assumes "- M_PI / 2 - 1 / 1000 \<le> vy v" "vy v \<le> - M_PI / 2 + 1 / 1000"
  shows "GetUnique v = \<lparr>vx = vx v - vz v, vy = vy v, vz = 0\<rparr>"
  using assms by (cases v) (simp add: GetUnique_def Let_def)

lemma GetUnique_ok:
  assumes "- M_PI / 2 + 1 / 1000 < vy v" "vy v < M_PI / 2 - 1 / 1000"
  shows "GetUnique v = v"
  using assms by (cases v) (simp add: GetUnique_def Let_def)

lemma GetUnique_upper_band:
  assumes "M_PI / 2 - 1 / 1000 \<le> vy v" "vy v \<le> M_PI / 2 + 1 / 1000"
  shows "GetUnique v = \<lparr>vx = vx v + vz v, vy = vy v, vz = 0\<rparr>"
proof -
  have "\<not> vy v < - M_PI / 2 - 1 / 1000" "\<not> vy v \<le> - M_PI / 2 + 1 / 1000"
    "\<not> vy v < M_PI / 2 - 1 / 1000"
    using assms M_PI_bounds by simp_all
  with assms show ?thesis
    by (cases v) (simp add: GetUnique_def Let_def)
qed

lemma GetUnique_above:
  assumes "M_PI / 2 + 1 / 1000 < vy v"
  shows "GetUnique v =
    \<lparr>vx = (if vx v < 0 then vx v + M_PI else vx v - M_PI),
     vy = - (vy v - M_PI),
     vz = (if vz v < 0 then vz v + M_PI else vz v - M_PI)\<rparr>"
proof -
  have "\<not> vy v < - M_PI / 2 - 1 / 1000" "\<not> vy v \<le> - M_PI / 2 + 1 / 1000"
    "\<not> vy v < M_PI / 2 - 1 / 1000" "\<not> vy v \<le> M_PI / 2 + 1 / 1000"
    using assms M_PI_bounds by simp_all
  then show ?thesis
    by (cases v) (simp add: GetUnique_def Let_def)
qed

text \<open>
  C6. When the input pitch lies in the tolerance band around \<open>pi/2\<close> or around \<open>- pi/2\<close>,
  normalization folds the third angle into the first (added in the upper band,
  subtracted in the lower band), leaves the pitch as it is and sets the third angle
  to zero. \<open>GetUnique\<close> is a total function into \<open>Vector3d\<close>: the source has no error
  path, so the result type has no error value.
\<close>

theorem GetUnique_gimbal_lock_fold:
  "(\<bar>vy v - M_PI / 2\<bar> \<le> 1 / 1000 \<longrightarrow>
      GetUnique v = \<lparr>vx = vx v + vz v, vy = vy v, vz = 0\<rparr>) \<and>
   (\<bar>vy v + M_PI / 2\<bar> \<le> 1 / 1000 \<longrightarrow>
      GetUnique v = \<lparr>vx = vx v - vz v, vy = vy v, vz = 0\<rparr>)"
proof (intro conjI impI)
  assume "\<bar>vy v - M_PI / 2\<bar> \<le> 1 / 1000"
  then have "M_PI / 2 - 1 / 1000 \<le> vy v" "vy v \<le> M_PI / 2 + 1 / 1000"
    by linarith+
  then show "GetUnique v = \<lparr>vx = vx v + vz v, vy = vy v, vz = 0\<rparr>"
    by (rule GetUnique_upper_band)
next
  assume "\<bar>vy v + M_PI / 2\<bar> \<le> 1 / 1000"
  then have "- M_PI / 2 - 1 / 1000 \<le> vy v" "vy v \<le> - M_PI / 2 + 1 / 1000"
    by linarith+
  then show "GetUnique v = \<lparr>vx = vx v - vz v, vy = vy v, vz = 0\<rparr>"
    by (rule GetUnique_lower_band)
qed

theorem GetUnique_gimbal_lock_fold_witness:
  "\<bar>vy \<lparr>vx = 1, vy = M_PI / 2, vz = 2\<rparr> - M_PI / 2\<bar> \<le> 1 / 1000 \<and>
   GetUnique \<lparr>vx = 1, vy = M_PI / 2, vz = 2\<rparr> = \<lparr>vx = 3, vy = M_PI / 2, vz = 0\<rparr> \<and>
   \<bar>vy \<lparr>vx = 1, vy = - M_PI / 2, vz = 2\<rparr> + M_PI / 2\<bar> \<le> 1 / 1000 \<and>
   GetUnique \<lparr>vx = 1, vy = - M_PI / 2, vz = 2\<rparr> = \<lparr>vx = - 1, vy = - M_PI / 2, vz = 0\<rparr>"
  using GetUnique_gimbal_lock_fold [of "\<lparr>vx = 1, vy = M_PI / 2, vz = 2\<rparr>"]
    GetUnique_gimbal_lock_fold [of "\<lparr>vx = 1, vy = - M_PI / 2, vz = 2\<rparr>"]
  by simp

text \<open>
  C1, as stated: normalizing twice gives the same triple as normalizing once, for every
  input triple. The source has no step that first wraps the pitch into \<open>[- pi, pi)\<close>, so
  a pitch of \<open>2 * pi\<close> is mapped to \<open>- pi\<close> by the last branch, and a second call maps
  that \<open>- pi\<close> to \<open>0\<close> by the first branch.
\<close>

theorem GetUnique_idempotent_counterexample:
  "\<not> (\<forall>v. GetUnique (GetUnique v) = GetUnique v)"
proof
  assume idem: "\<forall>v. GetUnique (GetUnique v) = GetUnique v"
  let ?v = "\<lparr>vx = 0, vy = 2 * M_PI, vz = 0\<rparr>"
  have once: "GetUnique ?v = \<lparr>vx = - M_PI, vy = - M_PI, vz = - M_PI\<rparr>"
    using M_PI_bounds by (simp add: GetUnique_above)
  have twice: "GetUnique \<lparr>vx = - M_PI, vy = - M_PI, vz = - M_PI\<rparr> = \<lparr>vx = 0, vy = 0, vz = 0\<rparr>"
    using M_PI_bounds by (simp add: GetUnique_below)
  from idem have "GetUnique (GetUnique ?v) = GetUnique ?v" by blast
  with once twice have "M_PI = 0" by simp
  with M_PI_bounds show False by simp
qed

text \<open>
  C1, amended: for every input triple whose pitch \<open>y\<close> satisfies
  \<open>\<bar>y\<bar> < 3 * pi / 2 - 1 / 1000\<close> (so for every pitch in \<open>[- pi, pi]\<close>), normalizing twice
  gives the same triple as normalizing once.
\<close>

theorem GetUnique_idempotent:
  assumes "\<bar>vy v\<bar> < 3 * M_PI / 2 - 1 / 1000"
  shows "GetUnique (GetUnique v) = GetUnique v"
proof -
  consider
      (below) "vy v < - M_PI / 2 - 1 / 1000"
    | (lower) "- M_PI / 2 - 1 / 1000 \<le> vy v" "vy v \<le> - M_PI / 2 + 1 / 1000"
    | (ok) "- M_PI / 2 + 1 / 1000 < vy v" "vy v < M_PI / 2 - 1 / 1000"
    | (upper) "M_PI / 2 - 1 / 1000 \<le> vy v" "vy v \<le> M_PI / 2 + 1 / 1000"
    | (above) "M_PI / 2 + 1 / 1000 < vy v"
    by linarith
  then show ?thesis
  proof cases
    case below
    let ?w = "GetUnique v"
    have w: "vy ?w = - (vy v + M_PI)"
      using below by (simp add: GetUnique_below)
    have "- M_PI / 2 + 1 / 1000 < vy ?w" "vy ?w < M_PI / 2 - 1 / 1000"
      using below assms unfolding w by linarith+
    then show ?thesis by (rule GetUnique_ok)
  next
    case lower
    let ?w = "GetUnique v"
    have w: "?w = \<lparr>vx = vx v - vz v, vy = vy v, vz = 0\<rparr>"
      using lower by (rule GetUnique_lower_band)
    have "GetUnique ?w = \<lparr>vx = vx ?w - vz ?w, vy = vy ?w, vz = 0\<rparr>"
      using lower by (intro GetUnique_lower_band) (simp_all add: w)
    then show ?thesis by (simp add: w)
  next
    case ok
    then have "GetUnique v = v" by (rule GetUnique_ok)
    then show ?thesis by simp
  next
    case upper
    let ?w = "GetUnique v"
    have w: "?w = \<lparr>vx = vx v + vz v, vy = vy v, vz = 0\<rparr>"
      using upper by (rule GetUnique_upper_band)
    have "GetUnique ?w = \<lparr>vx = vx ?w + vz ?w, vy = vy ?w, vz = 0\<rparr>"
      using upper by (intro GetUnique_upper_band) (simp_all add: w)
    then show ?thesis by (simp add: w)
  next
    case above
    let ?w = "GetUnique v"
    have w: "vy ?w = - (vy v - M_PI)"
      using above by (simp add: GetUnique_above)
    have "- M_PI / 2 + 1 / 1000 < vy ?w" "vy ?w < M_PI / 2 - 1 / 1000"
      using above assms unfolding w by linarith+
    then show ?thesis by (rule GetUnique_ok)
  qed
qed

theorem GetUnique_idempotent_witness:
  "\<bar>vy \<lparr>vx = 1, vy = M_PI, vz = - 1\<rparr>\<bar> < 3 * M_PI / 2 - 1 / 1000 \<and>
   GetUnique (GetUnique \<lparr>vx = 1, vy = M_PI, vz = - 1\<rparr>) =
     GetUnique \<lparr>vx = 1, vy = M_PI, vz = - 1\<rparr>"
proof -
  have h: "\<bar>vy \<lparr>vx = 1, vy = M_PI, vz = - 1\<rparr>\<bar> < 3 * M_PI / 2 - 1 / 1000"
    using M_PI_bounds by simp
  from h GetUnique_idempotent [OF h] show ?thesis by blast
qed

text \<open>
  C2. The source's comment promises a result in \<open>[- pi, pi)\<close>, \<open>[- pi/2, pi/2)\<close>,
  \<open>[- pi, pi)\<close>. Two inputs whose three angles all lie in \<open>[- pi, pi)\<close> show what the code
  returns instead. At pitch \<open>pi/2\<close> the fold adds the third angle to the first and does
  not wrap the sum: first angle \<open>2 + 2 = 4\<close>, which is not below \<open>pi\<close>. A pitch inside the
  band but above \<open>pi/2\<close> is returned as it is: middle angle \<open>pi/2 + 1/2000\<close>.
\<close>

theorem GetUnique_range_failing_inputs:
  "GetUnique \<lparr>vx = 2, vy = M_PI / 2, vz = 2\<rparr> = \<lparr>vx = 4, vy = M_PI / 2, vz = 0\<rparr> \<and>
   \<not> vx (GetUnique \<lparr>vx = 2, vy = M_PI / 2, vz = 2\<rparr>) < M_PI \<and>
   GetUnique \<lparr>vx = 0, vy = M_PI / 2 + 1 / 2000, vz = 0\<rparr> =
     \<lparr>vx = 0, vy = M_PI / 2 + 1 / 2000, vz = 0\<rparr> \<and>
   \<not> vy (GetUnique \<lparr>vx = 0, vy = M_PI / 2 + 1 / 2000, vz = 0\<rparr>) \<le> M_PI / 2"
proof -
  have a: "GetUnique \<lparr>vx = 2, vy = M_PI / 2, vz = 2\<rparr> = \<lparr>vx = 4, vy = M_PI / 2, vz = 0\<rparr>"
    by (simp add: GetUnique_upper_band)
  have b: "GetUnique \<lparr>vx = 0, vy = M_PI / 2 + 1 / 2000, vz = 0\<rparr> =
     \<lparr>vx = 0, vy = M_PI / 2 + 1 / 2000, vz = 0\<rparr>"
    by (simp add: GetUnique_upper_band)
  show ?thesis
    unfolding a b using M_PI_bounds by simp
qed

text \<open>
  What the code does guarantee about ranges: outside both tolerance bands, a triple
  whose angles all start in \<open>[- pi, pi)\<close> ends in the canonical ranges.
\<close>

lemma GetUnique_range_outside_bands:
  assumes x: "- M_PI \<le> vx v" "vx v < M_PI"
    and y: "- M_PI \<le> vy v" "vy v < M_PI"
    and z: "- M_PI \<le> vz v" "vz v < M_PI"
    and lo: "\<not> \<bar>vy v + M_PI / 2\<bar> \<le> 1 / 1000"
    and hi: "\<not> \<bar>vy v - M_PI / 2\<bar> \<le> 1 / 1000"
  shows "- M_PI \<le> vx (GetUnique v) \<and> vx (GetUnique v) < M_PI \<and>
         - M_PI / 2 \<le> vy (GetUnique v) \<and> vy (GetUnique v) \<le> M_PI / 2 \<and>
         - M_PI \<le> vz (GetUnique v) \<and> vz (GetUnique v) < M_PI"
proof -
  consider
      (below) "vy v < - M_PI / 2 - 1 / 1000"
    | (ok) "- M_PI / 2 + 1 / 1000 < vy v" "vy v < M_PI / 2 - 1 / 1000"
    | (above) "M_PI / 2 + 1 / 1000 < vy v"
    using lo hi by linarith
  then show ?thesis
  proof cases
    case below
    show ?thesis
      unfolding GetUnique_below [OF below] using x y z below by simp
  next
    case ok
    show ?thesis
      unfolding GetUnique_ok [OF ok] using x y z ok by simp
  next
    case above
    show ?thesis
      unfolding GetUnique_above [OF above] using x y z above by simp
  qed
qed

section \<open>Properties of trajectory extraction\<close>



lemma list_update_next:
  assumes "m < length xs"
  shows "(map f [0..<m] @ drop m xs)[m := f m] = map f [0..<Suc m] @ drop (Suc m) xs"
proof -
  have "drop m xs = xs ! m # drop (Suc m) xs"
    using assms by (simp add: Cons_nth_drop_Suc)
  then show ?thesis by (simp add: list_update_append)
qed

lemma GetTrajectory_ee_foldl:
  assumes "m \<le> length (ee_contact s)" "m \<le> length (ee_motion s)" "m \<le> length (ee_forces s)"
  shows "foldl (GetTrajectory_ee vars t) s [0..<m] =
    s\<lparr>ee_contact :=
        map (\<lambda>ee. IsConstantPhase (GetComponent_PhaseNodes vars (GetEEMotionId ee)) t) [0..<m]
          @ drop m (ee_contact s),
      ee_motion :=
        map (\<lambda>ee. GetPoint (GetComponent_PhaseNodes vars (GetEEMotionId ee)) t) [0..<m]
          @ drop m (ee_motion s),
      ee_forces :=
        map (\<lambda>ee. lin_p (GetPoint (GetComponent_Spline vars (GetEEForceId ee)) t)) [0..<m]
          @ drop m (ee_forces s)\<rparr>"
  using assms
proof (induction m)
  case 0
  then show ?case by simp
next
  case (Suc m)
  then have lt: "m < length (ee_contact s)" "m < length (ee_motion s)" "m < length (ee_forces s)"
    by simp_all
  have IH: "foldl (GetTrajectory_ee vars t) s [0..<m] =
    s\<lparr>ee_contact :=
        map (\<lambda>ee. IsConstantPhase (GetComponent_PhaseNodes vars (GetEEMotionId ee)) t) [0..<m]
          @ drop m (ee_contact s),
      ee_motion :=
        map (\<lambda>ee. GetPoint (GetComponent_PhaseNodes vars (GetEEMotionId ee)) t) [0..<m]
          @ drop m (ee_motion s),
      ee_forces :=
        map (\<lambda>ee. lin_p (GetPoint (GetComponent_Spline vars (GetEEForceId ee)) t)) [0..<m]
          @ drop m (ee_forces s)\<rparr>"
    using Suc by simp
  have "foldl (GetTrajectory_ee vars t) s [0..<Suc m] =
        GetTrajectory_ee vars t (foldl (GetTrajectory_ee vars t) s [0..<m]) m"
    by simp
  also have "\<dots> = s\<lparr>ee_contact :=
        map (\<lambda>ee. IsConstantPhase (GetComponent_PhaseNodes vars (GetEEMotionId ee)) t) [0..<Suc m]
          @ drop (Suc m) (ee_contact s),
      ee_motion :=
        map (\<lambda>ee. GetPoint (GetComponent_PhaseNodes vars (GetEEMotionId ee)) t) [0..<Suc m]
          @ drop (Suc m) (ee_motion s),
      ee_forces :=
        map (\<lambda>ee. lin_p (GetPoint (GetComponent_Spline vars (GetEEForceId ee)) t)) [0..<Suc m]
          @ drop (Suc m) (ee_forces s)\<rparr>"
    unfolding IH GetTrajectory_ee_def Let_def
    using list_update_next [OF lt(1),
        of "\<lambda>ee. IsConstantPhase (GetComponent_PhaseNodes vars (GetEEMotionId ee)) t"]
      list_update_next [OF lt(2),
        of "\<lambda>ee. GetPoint (GetComponent_PhaseNodes vars (GetEEMotionId ee)) t"]
      list_update_next [OF lt(3),
        of "\<lambda>ee. lin_p (GetPoint (GetComponent_Spline vars (GetEEForceId ee)) t)"]
    by (simp del: upt_Suc map_append)
  finally show ?case .
qed

lemma GetTrajectory_state_eq:
  "GetTrajectory_state GetState towr vars t =
    \<lparr>base = \<lparr>lin = GetPoint (GetComponent_Spline vars base_linear) t,
              ang = GetState (GetPoint (GetComponent_Spline vars base_angular) t)\<rparr>,
     ee_motion = map (\<lambda>ee. GetPoint (GetComponent_PhaseNodes vars (GetEEMotionId ee)) t)
                   [0..<GetEECount (initial_ee_W towr)],
     ee_contact = map (\<lambda>ee. IsConstantPhase (GetComponent_PhaseNodes vars (GetEEMotionId ee)) t)
                   [0..<GetEECount (initial_ee_W towr)],
     ee_forces = map (\<lambda>ee. lin_p (GetPoint (GetComponent_Spline vars (GetEEForceId ee)) t))
                   [0..<GetEECount (initial_ee_W towr)],
     t_global = t\<rparr>"
  unfolding GetTrajectory_state_def Let_def GetEEsOrdered_def
  by (simp add: GetTrajectory_ee_foldl RobotStateCartesian_init_def)


lemma t_global_GetTrajectory_state: "t_global (GetTrajectory_state GetState towr vars t) = t"
  by (simp add: GetTrajectory_state_eq)


text \<open>With a step that is not positive, a loop that is entered is never left.\<close>

lemma GetTrajectory_while_no_return:
  assumes "dt \<le> 0" "t \<le> T + 1 / 100000"
  shows "GetTrajectory_while body dt T t trajectory = None"
proof (rule ccontr)
  assume "GetTrajectory_while body dt T t trajectory \<noteq> None"
  then obtain result where r: "GetTrajectory_while body dt T t trajectory = Some result"
    by blast
  have "\<not> (dt \<le> 0 \<and> t \<le> T + 1 / 100000)"
  proof (rule GetTrajectory_while.raw_induct
      [where P = "\<lambda>body dt T t trajectory result. \<not> (dt \<le> 0 \<and> t \<le> T + 1 / 100000)",
        OF _ r])
    fix loop :: "(real \<Rightarrow> RobotStateCartesian) \<Rightarrow> real \<Rightarrow> real \<Rightarrow> real \<Rightarrow> RobotStateCartesian list
        \<Rightarrow> RobotStateCartesian list option"
    fix body dt T t trajectory result
    assume IH: "\<And>body dt T t trajectory result.
        loop body dt T t trajectory = Some result \<Longrightarrow> \<not> (dt \<le> 0 \<and> t \<le> T + 1 / 100000)"
    assume step: "(if t \<le> T + 1 / 100000
        then loop body dt T (t + dt) (trajectory @ [body t]) else Some trajectory) = Some result"
    show "\<not> (dt \<le> 0 \<and> t \<le> T + 1 / 100000)"
    proof (cases "t \<le> T + 1 / 100000")
      case True
      with step have "loop body dt T (t + dt) (trajectory @ [body t]) = Some result" by simp
      from IH [OF this] True show ?thesis by linarith
    next
      case False
      then show ?thesis by simp
    qed
  qed
  with assms show False by simp
qed

lemma GetTrajectory_no_return:
  assumes "dt \<le> 0" "0 \<le> GetTotalTime (params towr)"
  shows "GetTrajectory GetState towr vars dt = None"
  using assms by (simp add: GetTrajectory_def GetTrajectory_while_no_return)






section \<open>Properties of \<^verbatim>\<open>TOWR::GetTrajectory\<close> with rounding and a variable store\<close>

lemma funpow_shift: "(f ^^ Suc k) t = (f ^^ k) (f t)"
  by (simp add: funpow_swap1)

lemma TOWR_GetTrajectory_while_times:
  fixes body :: "real \<Rightarrow> 'v \<Rightarrow> RobotStateCartesian \<times> 'v"
  assumes tg: "\<And>t vars. t_global (fst (body t vars)) = t"
  shows "\<not> ((\<lambda>t. rnd (t + dt)) ^^ n) t \<le> rnd (T + rnd (1 / 100000)) \<Longrightarrow>
         (\<forall>k<n. ((\<lambda>t. rnd (t + dt)) ^^ k) t \<le> rnd (T + rnd (1 / 100000))) \<Longrightarrow>
         \<exists>states vars'.
           TOWR_GetTrajectory_while rnd body dt T t trajectory vars
             = Some (trajectory @ states, vars') \<and>
           map t_global states = map (\<lambda>k. ((\<lambda>t. rnd (t + dt)) ^^ k) t) [0..<n]"
proof (induction n arbitrary: t trajectory vars)
  case 0
  then show ?case by (simp add: TOWR_GetTrajectory_while.simps)
next
  case (Suc n)
  let ?f = "\<lambda>t. rnd (t + dt)"
  let ?B = "rnd (T + rnd (1 / 100000))"
  have t: "t \<le> ?B" using Suc.prems(2) [rule_format, of 0] by simp
  have a: "\<not> (?f ^^ n) (?f t) \<le> ?B"
    using Suc.prems(1) unfolding funpow_shift .
  have b: "\<forall>k<n. (?f ^^ k) (?f t) \<le> ?B"
  proof (intro allI impI)
    fix k assume "k < n"
    then have "Suc k < Suc n" by simp
    then have "(?f ^^ Suc k) t \<le> ?B" using Suc.prems(2) by blast
    then show "(?f ^^ k) (?f t) \<le> ?B" unfolding funpow_shift .
  qed
  obtain states vars' where IH:
    "TOWR_GetTrajectory_while rnd body dt T (?f t) (trajectory @ [fst (body t vars)])
        (snd (body t vars)) = Some ((trajectory @ [fst (body t vars)]) @ states, vars')"
    "map t_global states = map (\<lambda>k. (?f ^^ k) (?f t)) [0..<n]"
    using Suc.IH [OF a b] by blast
  have unfold: "TOWR_GetTrajectory_while rnd body dt T t trajectory vars =
      TOWR_GetTrajectory_while rnd body dt T (?f t) (trajectory @ [fst (body t vars)])
        (snd (body t vars))"
    using t by (subst TOWR_GetTrajectory_while.simps) simp
  have "map t_global (fst (body t vars) # states) = map (\<lambda>k. (?f ^^ k) t) [0..<Suc n]"
  proof -
    have "map (\<lambda>k. (?f ^^ k) t) [0..<Suc n] = t # map (\<lambda>k. (?f ^^ k) t) (map Suc [0..<n])"
      by (simp add: map_Suc_upt upt_conv_Cons del: upt_Suc)
    also have "map (\<lambda>k. (?f ^^ k) t) (map Suc [0..<n]) = map (\<lambda>k. (?f ^^ k) (?f t)) [0..<n]"
      by (simp only: map_map o_def funpow_shift)
    finally show ?thesis using IH(2) tg by simp
  qed
  with unfold IH(1) show ?case
    by (intro exI [of _ "fst (body t vars) # states"] exI [of _ vars']) simp
qed

lemma TOWR_GetTrajectory_while_leaves:
  assumes "TOWR_GetTrajectory_while rnd body dt T t trajectory vars = Some result"
  shows "\<exists>n. \<not> ((\<lambda>t. rnd (t + dt)) ^^ n) t \<le> rnd (T + rnd (1 / 100000))"
proof (rule TOWR_GetTrajectory_while.raw_induct
    [where P = "\<lambda>rnd body dt T t trajectory vars result.
        \<exists>n. \<not> ((\<lambda>t. rnd (t + dt)) ^^ n) t \<le> rnd (T + rnd (1 / 100000))",
      OF _ assms])
  fix loop :: "(real \<Rightarrow> real) \<Rightarrow> (real \<Rightarrow> 'a \<Rightarrow> RobotStateCartesian \<times> 'a) \<Rightarrow> real \<Rightarrow> real \<Rightarrow> real
      \<Rightarrow> RobotStateCartesian list \<Rightarrow> 'a \<Rightarrow> (RobotStateCartesian list \<times> 'a) option"
  fix rnd body dt T t trajectory vars result
  assume IH: "\<And>rnd body dt T t trajectory vars result.
      loop rnd body dt T t trajectory vars = Some result \<Longrightarrow>
      \<exists>n. \<not> ((\<lambda>t. rnd (t + dt)) ^^ n) t \<le> rnd (T + rnd (1 / 100000))"
  assume step: "(if t \<le> rnd (T + rnd (1 / 100000))
      then loop rnd body dt T (rnd (t + dt)) (trajectory @ [fst (body t vars)]) (snd (body t vars))
      else Some (trajectory, vars)) = Some result"
  show "\<exists>n. \<not> ((\<lambda>t. rnd (t + dt)) ^^ n) t \<le> rnd (T + rnd (1 / 100000))"
  proof (cases "t \<le> rnd (T + rnd (1 / 100000))")
    case True
    with step have "loop rnd body dt T (rnd (t + dt)) (trajectory @ [fst (body t vars)])
        (snd (body t vars)) = Some result" by simp
    from IH [OF this] obtain n where
      "\<not> ((\<lambda>t. rnd (t + dt)) ^^ n) (rnd (t + dt)) \<le> rnd (T + rnd (1 / 100000))" by blast
    then have "\<not> ((\<lambda>t. rnd (t + dt)) ^^ Suc n) t \<le> rnd (T + rnd (1 / 100000))"
      unfolding funpow_shift .
    then show ?thesis by blast
  next
    case False
    then have "\<not> ((\<lambda>t. rnd (t + dt)) ^^ 0) t \<le> rnd (T + rnd (1 / 100000))" by simp
    then show ?thesis by blast
  qed
qed


lemma t_global_TOWR_GetTrajectory_state:
  "t_global (fst (TOWR_GetTrajectory_state Q GetState towr t vars)) = t"
  by (simp add: TOWR_GetTrajectory_state_def Let_def split_beta)



text \<open>
  C3. The loop starts at \<open>t = 0\<close> and steps by \<open>dt\<close> in double arithmetic: the \<open>k\<close>-th
  time is \<open>sample_time rnd dt k\<close>. If the \<open>n\<close>-th time is the first to exceed the total
  duration plus the slack (both the sum and the literal \<^verbatim>\<open>1e-5\<close> rounded), the call
  returns exactly \<open>n\<close> samples, stamped with the times \<open>0 .. n - 1\<close> in this order, the
  last one within the slack included; if no time exceeds the bound, the call does not
  return. This holds whatever the queries answer or write. For a total duration of
  \<open>1\<close> and \<open>dt = 0.5\<close>, under any rounding that leaves \<open>0.5\<close>, \<open>1\<close> and \<open>1.5\<close> as they are and
  puts the bound between \<open>1\<close> and \<open>1.5\<close> (as rounding to double does), the samples are
  exactly three, at \<open>0\<close>, \<open>0.5\<close> and \<open>1\<close>.
\<close>

theorem TOWR_GetTrajectory_sample_times:
  "(\<not> sample_time rnd dt n \<le> rnd (GetTotalTime (params towr) + rnd (1 / 100000)) \<and>
    (\<forall>k<n. sample_time rnd dt k \<le> rnd (GetTotalTime (params towr) + rnd (1 / 100000))) \<longrightarrow>
      (\<exists>trajectory vars'.
         TOWR_GetTrajectory rnd Q GetState towr vars dt = Some (trajectory, vars') \<and>
         map t_global trajectory = map (sample_time rnd dt) [0..<n])) \<and>
   ((\<forall>k. sample_time rnd dt k \<le> rnd (GetTotalTime (params towr) + rnd (1 / 100000))) \<longrightarrow>
      TOWR_GetTrajectory rnd Q GetState towr vars dt = None) \<and>
   (GetTotalTime (params towr) = 1 \<and>
    rnd (1 / 2) = 1 / 2 \<and> rnd 1 = 1 \<and> rnd (3 / 2) = 3 / 2 \<and>
    1 \<le> rnd (1 + rnd (1 / 100000)) \<and> rnd (1 + rnd (1 / 100000)) < 3 / 2 \<longrightarrow>
      (\<exists>trajectory vars'.
         TOWR_GetTrajectory rnd Q GetState towr vars (1 / 2) = Some (trajectory, vars') \<and>
         map t_global trajectory = [0, 1 / 2, 1]))"
proof (intro conjI impI)
  let ?body = "TOWR_GetTrajectory_state Q GetState towr"
  let ?B = "rnd (GetTotalTime (params towr) + rnd (1 / 100000))"
  assume n: "\<not> sample_time rnd dt n \<le> ?B \<and> (\<forall>k<n. sample_time rnd dt k \<le> ?B)"
  have "\<exists>states vars'.
      TOWR_GetTrajectory_while rnd ?body dt (GetTotalTime (params towr)) 0 [] vars
        = Some ([] @ states, vars') \<and>
      map t_global states = map (\<lambda>k. ((\<lambda>t. rnd (t + dt)) ^^ k) 0) [0..<n]"
    using n
    by (intro TOWR_GetTrajectory_while_times t_global_TOWR_GetTrajectory_state)
      (simp_all add: sample_time_def)
  then show "\<exists>trajectory vars'.
         TOWR_GetTrajectory rnd Q GetState towr vars dt = Some (trajectory, vars') \<and>
         map t_global trajectory = map (sample_time rnd dt) [0..<n]"
    by (simp add: TOWR_GetTrajectory_def sample_time_def [abs_def])
next
  let ?B = "rnd (GetTotalTime (params towr) + rnd (1 / 100000))"
  assume all: "\<forall>k. sample_time rnd dt k \<le> ?B"
  show "TOWR_GetTrajectory rnd Q GetState towr vars dt = None"
  proof (rule ccontr)
    assume "TOWR_GetTrajectory rnd Q GetState towr vars dt \<noteq> None"
    then obtain result where
      "TOWR_GetTrajectory_while rnd (TOWR_GetTrajectory_state Q GetState towr) dt
         (GetTotalTime (params towr)) 0 [] vars = Some result"
      by (auto simp: TOWR_GetTrajectory_def)
    from TOWR_GetTrajectory_while_leaves [OF this] all show False
      by (simp add: sample_time_def)
  qed
next
  let ?body = "TOWR_GetTrajectory_state Q GetState towr"
  assume a: "GetTotalTime (params towr) = 1 \<and>
    rnd (1 / 2) = 1 / 2 \<and> rnd 1 = 1 \<and> rnd (3 / 2) = 3 / 2 \<and>
    1 \<le> rnd (1 + rnd (1 / 100000)) \<and> rnd (1 + rnd (1 / 100000)) < 3 / 2"
  let ?B = "rnd (1 + rnd (1 / 100000))"
  from a have r: "rnd (1 / 2) = 1 / 2" "rnd 1 = 1" "rnd (3 / 2) = 3 / 2"
    and B: "1 \<le> ?B" "?B < 3 / 2" and T: "GetTotalTime (params towr) = 1"
    by blast+
  have st: "sample_time rnd (1 / 2) 0 = 0" "sample_time rnd (1 / 2) 1 = 1 / 2"
    "sample_time rnd (1 / 2) 2 = 1" "sample_time rnd (1 / 2) 3 = 3 / 2"
    by (simp_all add: sample_time_def numeral_2_eq_2 numeral_3_eq_3 r)
  have leave: "\<not> sample_time rnd (1 / 2) 3 \<le> ?B"
    using B unfolding st by linarith
  have stay: "\<forall>k<3. sample_time rnd (1 / 2) k \<le> ?B"
  proof (intro allI impI)
    fix k :: nat assume "k < 3"
    then consider "k = 0" | "k = 1" | "k = 2" by linarith
    then show "sample_time rnd (1 / 2) k \<le> ?B"
      using B st by cases simp_all
  qed
  have "\<exists>states vars'.
      TOWR_GetTrajectory_while rnd ?body (1 / 2) 1 0 [] vars = Some ([] @ states, vars') \<and>
      map t_global states = map (\<lambda>k. ((\<lambda>t. rnd (t + 1 / 2)) ^^ k) 0) [0..<3]"
    using leave stay
    by (intro TOWR_GetTrajectory_while_times t_global_TOWR_GetTrajectory_state)
      (simp_all add: sample_time_def)
  moreover have "map (\<lambda>k. ((\<lambda>t. rnd (t + 1 / 2)) ^^ k) 0) [0..<3] = [0, 1 / 2, 1]"
    by (simp add: numeral_3_eq_3 r)
  ultimately show "\<exists>trajectory vars'.
         TOWR_GetTrajectory rnd Q GetState towr vars (1 / 2) = Some (trajectory, vars') \<and>
         map t_global trajectory = [0, 1 / 2, 1]"
    by (simp add: TOWR_GetTrajectory_def T)
qed

theorem TOWR_GetTrajectory_sample_times_witness:
  "GetTotalTime (params example_TOWR) = 1 \<and>
   example_rnd (1 / 100000) \<noteq> 1 / 100000 \<and>
   example_rnd (1 / 2) = 1 / 2 \<and> example_rnd 1 = 1 \<and> example_rnd (3 / 2) = 3 / 2 \<and>
   1 \<le> example_rnd (1 + example_rnd (1 / 100000)) \<and>
   example_rnd (1 + example_rnd (1 / 100000)) < 3 / 2 \<and>
   (\<exists>trajectory vars'.
      TOWR_GetTrajectory example_rnd counting_queries example_GetState example_TOWR 0 (1 / 2)
        = Some (trajectory, vars') \<and>
      map t_global trajectory = [0, 1 / 2, 1]) \<and>
   (\<exists>trajectory vars'.
      TOWR_GetTrajectory example_rnd counting_queries example_GetState example_TOWR 0 1
        = Some (trajectory, vars') \<and>
      map t_global trajectory = [0, 1]) \<and>
   TOWR_GetTrajectory example_rnd counting_queries example_GetState example_TOWR 0 0 = None"
proof -
  note T = GetTotalTime_example_TOWR
  let ?B = "example_rnd (1 + example_rnd (1 / 100000))"
  have B: "1 \<le> ?B" "?B < 3 / 2" "?B < 2" "0 \<le> ?B"
    unfolding example_rnd_values(7) by simp_all
  have eps: "example_rnd (1 / 100000) \<noteq> 1 / 100000"
    unfolding example_rnd_values(6) by simp
  have half: "\<exists>trajectory vars'.
      TOWR_GetTrajectory example_rnd counting_queries example_GetState example_TOWR 0 (1 / 2)
        = Some (trajectory, vars') \<and>
      map t_global trajectory = [0, 1 / 2, 1]"
    using TOWR_GetTrajectory_sample_times [where rnd = example_rnd and towr = example_TOWR
        and Q = counting_queries and GetState = example_GetState and vars = 0]
      T B example_rnd_values by blast
  have st1: "sample_time example_rnd 1 0 = 0" "sample_time example_rnd 1 1 = 1"
    "sample_time example_rnd 1 2 = 2"
    by (simp_all add: sample_time_def numeral_2_eq_2 example_rnd_values)
  have "\<not> sample_time example_rnd 1 2 \<le> example_rnd (GetTotalTime (params example_TOWR)
          + example_rnd (1 / 100000)) \<and>
      (\<forall>k<2. sample_time example_rnd 1 k \<le> example_rnd (GetTotalTime (params example_TOWR)
          + example_rnd (1 / 100000)))"
    unfolding T using B st1 by (auto simp: less_2_cases_iff)
  then have "\<exists>trajectory vars'.
      TOWR_GetTrajectory example_rnd counting_queries example_GetState example_TOWR 0 1
        = Some (trajectory, vars') \<and>
      map t_global trajectory = map (sample_time example_rnd 1) [0..<2]"
    using TOWR_GetTrajectory_sample_times [where rnd = example_rnd and towr = example_TOWR
        and Q = counting_queries and GetState = example_GetState and vars = 0 and dt = 1
        and n = 2]
    by blast
  moreover have "map (sample_time example_rnd 1) [0..<2] = [0, 1]"
    using st1 by (simp add: numeral_2_eq_2)
  ultimately have one: "\<exists>trajectory vars'.
      TOWR_GetTrajectory example_rnd counting_queries example_GetState example_TOWR 0 1
        = Some (trajectory, vars') \<and>
      map t_global trajectory = [0, 1]"
    by simp
  have st0: "sample_time example_rnd 0 k = 0" for k
    by (induction k) (simp_all add: sample_time_def example_rnd_values)
  have "\<forall>k. sample_time example_rnd 0 k \<le> example_rnd (GetTotalTime (params example_TOWR)
          + example_rnd (1 / 100000))"
    unfolding T st0 using B by simp
  then have zero:
    "TOWR_GetTrajectory example_rnd counting_queries example_GetState example_TOWR 0 0 = None"
    using TOWR_GetTrajectory_sample_times [where rnd = example_rnd and towr = example_TOWR
        and Q = counting_queries and GetState = example_GetState and vars = 0 and dt = 0]
    by blast
  from T eps B half one zero example_rnd_values show ?thesis by simp
qed




text \<open>
  The hypothesis is needed: with queries that count their calls, the first call leaves
  another state than it found and the second call returns other contact flags.
\<close>

lemma TOWR_GetTrajectory_writing_queries:
  "\<not> read_only counting_queries \<and>
   (\<exists>first second vars' vars''.
      TOWR_GetTrajectory (\<lambda>x. x) counting_queries example_GetState example_TOWR 0 1
        = Some (first, vars') \<and>
      TOWR_GetTrajectory (\<lambda>x. x) counting_queries example_GetState example_TOWR vars' 1
        = Some (second, vars'') \<and>
      vars' = 16 \<and> vars'' = 32 \<and>
      map ee_contact first = [[True, False], [False, False]] \<and>
      map ee_contact second = [[False, False], [False, False]])"
proof -
  have ro: "\<not> read_only counting_queries"
    by (auto simp: read_only_def counting_queries_def)
  have n: "GetEECount (initial_ee_W example_TOWR) = Suc (Suc 0)"
    by (simp add: GetEECount_def example_TOWR_def)
  have body: "TOWR_GetTrajectory_state counting_queries example_GetState example_TOWR t calls =
      (\<lparr>base = \<lparr>lin = zero_StateLin3d, ang = example_GetState zero_StateLin3d\<rparr>,
        ee_motion = [zero_StateLin3d, zero_StateLin3d],
        ee_contact = [calls < 1, False],
        ee_forces = [lin_p zero_StateLin3d, lin_p zero_StateLin3d],
        t_global = t\<rparr>, calls + 8)" for t calls
    by (simp add: TOWR_GetTrajectory_state_def TOWR_GetTrajectory_ee_def Let_def n
        GetEEsOrdered_def RobotStateCartesian_init_def counting_queries_def)
  have first: "TOWR_GetTrajectory (\<lambda>x. x) counting_queries example_GetState example_TOWR 0 1 =
      Some ([fst (TOWR_GetTrajectory_state counting_queries example_GetState example_TOWR 0 0),
             fst (TOWR_GetTrajectory_state counting_queries example_GetState example_TOWR 1 8)],
            16)"
    by (simp add: TOWR_GetTrajectory_def GetTotalTime_example_TOWR
        TOWR_GetTrajectory_while.simps body)
  have second: "TOWR_GetTrajectory (\<lambda>x. x) counting_queries example_GetState example_TOWR 16 1 =
      Some ([fst (TOWR_GetTrajectory_state counting_queries example_GetState example_TOWR 0 16),
             fst (TOWR_GetTrajectory_state counting_queries example_GetState example_TOWR 1 24)],
            32)"
    by (simp add: TOWR_GetTrajectory_def GetTotalTime_example_TOWR
        TOWR_GetTrajectory_while.simps body)
  show ?thesis
    using ro first second by (simp add: body)
qed

section \<open>The exact reading of \<^verbatim>\<open>TOWR::GetTrajectory\<close>\<close>

text \<open>
  In exact arithmetic and over read-only components, the method with a variable store
  returns what \<open>GetTrajectory\<close> returns, and returns if and only if it does.
\<close>

lemma GetTrajectory_while_to_store:
  fixes body_st :: "real \<Rightarrow> 'v \<Rightarrow> RobotStateCartesian \<times> 'v"
  assumes ret: "GetTrajectory_while body dt T t trajectory = Some result"
    and b: "\<And>t. body_st t vars = (body t, vars)"
  shows "TOWR_GetTrajectory_while (\<lambda>x. x) body_st dt T t trajectory vars = Some (result, vars)"
proof -
  have "\<forall>(body_st :: real \<Rightarrow> 'v \<Rightarrow> RobotStateCartesian \<times> 'v) vars. (\<forall>t. body_st t vars = (body t, vars)) \<longrightarrow>
      TOWR_GetTrajectory_while (\<lambda>x. x) body_st dt T t trajectory vars = Some (result, vars)"
  proof (rule GetTrajectory_while.raw_induct
      [where P = "\<lambda>body dt T t trajectory result.
          \<forall>(body_st :: real \<Rightarrow> 'v \<Rightarrow> RobotStateCartesian \<times> 'v) vars. (\<forall>t. body_st t vars = (body t, vars)) \<longrightarrow>
            TOWR_GetTrajectory_while (\<lambda>x. x) body_st dt T t trajectory vars
              = Some (result, vars)",
        OF _ ret])
    fix loop :: "(real \<Rightarrow> RobotStateCartesian) \<Rightarrow> real \<Rightarrow> real \<Rightarrow> real \<Rightarrow> RobotStateCartesian list
        \<Rightarrow> RobotStateCartesian list option"
    fix body dt T t trajectory result
    assume IH: "\<And>body dt T t trajectory result.
        loop body dt T t trajectory = Some result \<Longrightarrow>
        \<forall>(body_st :: real \<Rightarrow> 'v \<Rightarrow> RobotStateCartesian \<times> 'v) vars. (\<forall>t. body_st t vars = (body t, vars)) \<longrightarrow>
          TOWR_GetTrajectory_while (\<lambda>x. x) body_st dt T t trajectory vars = Some (result, vars)"
    assume step: "(if t \<le> T + 1 / 100000
        then loop body dt T (t + dt) (trajectory @ [body t]) else Some trajectory) = Some result"
    show "\<forall>(body_st :: real \<Rightarrow> 'v \<Rightarrow> RobotStateCartesian \<times> 'v) vars. (\<forall>t. body_st t vars = (body t, vars)) \<longrightarrow>
        TOWR_GetTrajectory_while (\<lambda>x. x) body_st dt T t trajectory vars = Some (result, vars)"
    proof (intro allI impI)
      fix body_st :: "real \<Rightarrow> 'v \<Rightarrow> RobotStateCartesian \<times> 'v" and vars
      assume b: "\<forall>t. body_st t vars = (body t, vars)"
      show "TOWR_GetTrajectory_while (\<lambda>x. x) body_st dt T t trajectory vars = Some (result, vars)"
      proof (cases "t \<le> T + 1 / 100000")
        case True
        with step have "loop body dt T (t + dt) (trajectory @ [body t]) = Some result" by simp
        from IH [OF this, rule_format, of body_st vars] b have
          "TOWR_GetTrajectory_while (\<lambda>x. x) body_st dt T (t + dt) (trajectory @ [body t]) vars
            = Some (result, vars)" by simp
        with True b show ?thesis
          by (subst TOWR_GetTrajectory_while.simps) simp
      next
        case False
        with step show ?thesis
          by (subst TOWR_GetTrajectory_while.simps) simp
      qed
    qed
  qed
  from this [rule_format, of body_st vars] b show ?thesis by simp
qed

lemma GetTrajectory_while_from_store:
  fixes body_st :: "real \<Rightarrow> 'v \<Rightarrow> RobotStateCartesian \<times> 'v"
  assumes ret: "TOWR_GetTrajectory_while (\<lambda>x. x) body_st dt T t trajectory vars = Some result"
    and b: "\<And>t. body_st t vars = (body t, vars)"
  shows "GetTrajectory_while body dt T t trajectory = Some (fst result) \<and> snd result = vars"
proof -
  have "(\<lambda>x. x) = (\<lambda>x::real. x) \<longrightarrow>
      (\<forall>body. (\<forall>t. body_st t vars = (body t, vars)) \<longrightarrow>
        GetTrajectory_while body dt T t trajectory = Some (fst result) \<and> snd result = vars)"
  proof (rule TOWR_GetTrajectory_while.raw_induct
      [where P = "\<lambda>rnd body_st dt T t trajectory vars result.
          rnd = (\<lambda>x::real. x) \<longrightarrow>
          (\<forall>body. (\<forall>t. body_st t vars = (body t, vars)) \<longrightarrow>
            GetTrajectory_while body dt T t trajectory = Some (fst result) \<and> snd result = vars)",
        OF _ ret])
    fix loop :: "(real \<Rightarrow> real) \<Rightarrow> (real \<Rightarrow> 'v \<Rightarrow> RobotStateCartesian \<times> 'v) \<Rightarrow> real \<Rightarrow> real \<Rightarrow> real
        \<Rightarrow> RobotStateCartesian list \<Rightarrow> 'v \<Rightarrow> (RobotStateCartesian list \<times> 'v) option"
    fix rnd body_st dt T t trajectory vars result
    assume IH: "\<And>rnd body_st dt T t trajectory vars result.
        loop rnd body_st dt T t trajectory vars = Some result \<Longrightarrow>
        rnd = (\<lambda>x::real. x) \<longrightarrow>
        (\<forall>body. (\<forall>t. body_st t vars = (body t, vars)) \<longrightarrow>
          GetTrajectory_while body dt T t trajectory = Some (fst result) \<and> snd result = vars)"
    assume step: "(if t \<le> rnd (T + rnd (1 / 100000))
        then loop rnd body_st dt T (rnd (t + dt)) (trajectory @ [fst (body_st t vars)])
               (snd (body_st t vars))
        else Some (trajectory, vars)) = Some result"
    show "rnd = (\<lambda>x::real. x) \<longrightarrow>
        (\<forall>body. (\<forall>t. body_st t vars = (body t, vars)) \<longrightarrow>
          GetTrajectory_while body dt T t trajectory = Some (fst result) \<and> snd result = vars)"
    proof (intro allI impI)
      fix body
      assume rnd: "rnd = (\<lambda>x::real. x)" and b: "\<forall>t. body_st t vars = (body t, vars)"
      show "GetTrajectory_while body dt T t trajectory = Some (fst result) \<and> snd result = vars"
      proof (cases "t \<le> T + 1 / 100000")
        case True
        with step rnd b have
          "loop rnd body_st dt T (t + dt) (trajectory @ [body t]) vars = Some result"
          by simp
        from IH [OF this, rule_format, of body] rnd b have
          "GetTrajectory_while body dt T (t + dt) (trajectory @ [body t]) = Some (fst result)
            \<and> snd result = vars" by simp
        with True show ?thesis
          by (subst GetTrajectory_while.simps) simp
      next
        case False
        with step rnd show ?thesis
          by (subst GetTrajectory_while.simps) auto
      qed
    qed
  qed
  from this [rule_format, of body] b show ?thesis by simp
qed

lemma TOWR_GetTrajectory_while_exact:
  assumes b: "\<And>t. body_st t vars = (body t, vars)"
  shows "TOWR_GetTrajectory_while (\<lambda>x. x) body_st dt T t trajectory vars =
    map_option (\<lambda>result. (result, vars)) (GetTrajectory_while body dt T t trajectory)"
proof (cases "GetTrajectory_while body dt T t trajectory")
  case (Some result)
  from GetTrajectory_while_to_store [where body_st = body_st and vars = vars, OF Some b] Some
  show ?thesis by simp
next
  case None
  have "TOWR_GetTrajectory_while (\<lambda>x. x) body_st dt T t trajectory vars = None"
  proof (rule ccontr)
    assume "TOWR_GetTrajectory_while (\<lambda>x. x) body_st dt T t trajectory vars \<noteq> None"
    then obtain result where
      "TOWR_GetTrajectory_while (\<lambda>x. x) body_st dt T t trajectory vars = Some result" by blast
    from GetTrajectory_while_from_store [where body = body, OF this b] None show False by simp
  qed
  with None show ?thesis by simp
qed

lemma TOWR_GetTrajectory_ee_exact:
  "foldl (TOWR_GetTrajectory_ee Composite_queries t) (state, vars) ees =
    (foldl (GetTrajectory_ee vars t) state ees, vars)"
proof (induction ees arbitrary: state)
  case Nil
  then show ?case by simp
next
  case (Cons ee ees)
  have "TOWR_GetTrajectory_ee Composite_queries t (state, vars) ee =
      (GetTrajectory_ee vars t state ee, vars)"
    by (simp add: TOWR_GetTrajectory_ee_def GetTrajectory_ee_def Composite_queries_def Let_def)
  then show ?case using Cons.IH by simp
qed

lemma TOWR_GetTrajectory_state_exact:
  "TOWR_GetTrajectory_state Composite_queries GetState towr t vars =
    (GetTrajectory_state GetState towr vars t, vars)"
proof -
  have q: "Spline_GetPoint Composite_queries name t vars =
      (GetPoint (GetComponent_Spline vars name) t, vars)" for name
    by (simp add: Composite_queries_def)
  show ?thesis
    by (simp add: TOWR_GetTrajectory_state_def GetTrajectory_state_def Let_def q
        TOWR_GetTrajectory_ee_exact)
qed

lemma TOWR_GetTrajectory_exact:
  "TOWR_GetTrajectory (\<lambda>x. x) Composite_queries GetState towr vars dt =
    map_option (\<lambda>trajectory. (trajectory, vars)) (GetTrajectory GetState towr vars dt)"
  unfolding TOWR_GetTrajectory_def GetTrajectory_def Let_def
  by (rule TOWR_GetTrajectory_while_exact) (rule TOWR_GetTrajectory_state_exact)

section \<open>Properties of \<^verbatim>\<open>SetParameters\<close>\<close>

lemma avg_height_exact:
  "avg_height (\<lambda>x. x) poss = sum_list (map vz poss) / real (length poss)"
proof -
  have "foldl (\<lambda>avg_height pos. avg_height + vz pos / c) a0 ps = a0 + sum_list (map vz ps) / c"
    for c a0 and ps :: "Vector3d list"
    by (induction ps arbitrary: a0) (simp_all add: add_divide_distrib)
  then show ?thesis
    by (simp add: avg_height_def GetEECount_def ToImpl_def)
qed

text \<open>
  C4, as stated: after \<^verbatim>\<open>SetParameters\<close> returns, the terrain object passed to it is
  unchanged. The source calls \<^verbatim>\<open>SetTerrainHeightFromAvgFootholdHeight(terrain_)\<close>, which
  calls \<^verbatim>\<open>SetGroundHeight\<close> on the terrain: with a terrain whose \<^verbatim>\<open>SetGroundHeight\<close>
  stores the height and footholds at heights \<open>1\<close> and \<open>3\<close>, a ground height of \<open>0\<close> is \<open>2\<close>
  afterwards.
\<close>

theorem SetParameters_terrain_unchanged_counterexample:
  "\<not> (\<forall>final_base_arg total_time_arg terrain_arg (towr :: unit TOWR) store towr' store'.
        SetParameters example_rnd FlatTerrain_SetGroundHeight final_base_arg total_time_arg ()
            terrain_arg (towr, store) = Some (towr', store')
          \<longrightarrow> store' terrain_arg = store terrain_arg)"
proof
  assume unchanged:
    "\<forall>final_base_arg total_time_arg terrain_arg (towr :: unit TOWR) store towr' store'.
        SetParameters example_rnd FlatTerrain_SetGroundHeight final_base_arg total_time_arg ()
            terrain_arg (towr, store) = Some (towr', store')
          \<longrightarrow> store' terrain_arg = store terrain_arg"
  have avg: "avg_height example_rnd (initial_ee_W example_TOWR) = 2"
    by (simp add: avg_height_def example_TOWR_def GetEECount_def ToImpl_def example_rnd_def)
  have "\<exists>towr'. SetParameters example_rnd FlatTerrain_SetGroundHeight example_State3dEuler 1 () 0
        (example_TOWR, example_store) =
      Some (towr', example_store(0 \<mapsto> \<lparr>ground_height = 2, friction_coeff = 1\<rparr>))"
    by (simp add: SetParameters_def SetTerrainHeightFromAvgFootholdHeight_def avg
        example_store_def FlatTerrain_SetGroundHeight_def)
  with unchanged
  have "(example_store(0 \<mapsto> \<lparr>ground_height = 2, friction_coeff = 1\<rparr>)) 0 = example_store 0"
    by blast
  then show False by (simp add: example_store_def)
qed

text \<open>
  C4, amended: \<^verbatim>\<open>SetParameters\<close> stores the final base state, the total duration, the
  robot model and the terrain pointer in the planner, and it makes one call on the
  terrain object the pointer names: \<^verbatim>\<open>SetGroundHeight(avg_height)\<close>, where \<^verbatim>\<open>avg_height\<close>
  is the sum, accumulated in double arithmetic over the initial footholds, of each
  foothold's height divided by the number of footholds. The terrain after the call is
  the result of that one call, and no other terrain object changes.
\<close>

theorem SetParameters_calls_SetGroundHeight:
  assumes "store terrain_arg = Some hm"
  shows "SetParameters rnd SetGroundHeight final_base_arg total_time_arg model_arg terrain_arg
      (towr, store) =
    Some (towr\<lparr>final_base := final_base_arg,
               params := SetTotalDuration (params towr) total_time_arg,
               model := model_arg,
               terrain := terrain_arg\<rparr>,
          store(terrain_arg \<mapsto> SetGroundHeight (avg_height rnd (initial_ee_W towr)) hm)) \<and>
    avg_height rnd (initial_ee_W towr) =
      foldl (\<lambda>sum pos. rnd (sum + rnd (vz pos / real (length (initial_ee_W towr)))))
        0 (initial_ee_W towr)"
  using assms
  by (simp add: SetParameters_def SetTerrainHeightFromAvgFootholdHeight_def avg_height_def
      GetEECount_def ToImpl_def)

theorem SetParameters_calls_SetGroundHeight_witness:
  "example_store 0 = Some \<lparr>ground_height = 0, friction_coeff = 1\<rparr> \<and>
   SetParameters example_rnd FlatTerrain_SetGroundHeight example_State3dEuler 5 () 0
       (example_TOWR, example_store) =
     Some (example_TOWR\<lparr>params := \<lparr>total_time = 5\<rparr>\<rparr>,
           example_store(0 \<mapsto> \<lparr>ground_height = 2, friction_coeff = 1\<rparr>))"
proof -
  have h: "example_store 0 = Some \<lparr>ground_height = 0, friction_coeff = 1\<rparr>"
    by (simp add: example_store_def)
  have avg: "avg_height example_rnd (initial_ee_W example_TOWR) = 2"
    by (simp add: avg_height_def example_TOWR_def GetEECount_def ToImpl_def example_rnd_def)
  from SetParameters_calls_SetGroundHeight [where store = example_store and terrain_arg = 0
      and hm = "\<lparr>ground_height = 0, friction_coeff = 1\<rparr>"
      and final_base_arg = example_State3dEuler and rnd = example_rnd
      and SetGroundHeight = FlatTerrain_SetGroundHeight
      and total_time_arg = 5 and model_arg = "()" and towr = example_TOWR, OF h] h
  show ?thesis
    unfolding avg
    by (simp add: example_TOWR_def SetTotalDuration_def FlatTerrain_SetGroundHeight_def)
qed

section \<open>Properties of the convexity constraint\<close>

lemma foldl_add_sum_list: "foldl (\<lambda>sum_k lambda_ee. sum_k + lambda_ee) a xs = a + sum_list xs"
  for a :: real
  by (induction xs arbitrary: a) simp_all

text \<open>
  C7. The constraint has one row per sampled time. The value of row \<open>k\<close> is the sum,
  over all legs, of the load fractions at the \<open>k\<close>-th sampled time, and the bound of
  row \<open>k\<close> has lower and upper limit \<open>1\<close>.
\<close>

theorem ConvexityConstraint_rows:
  "length (g (UpdateConstraintValues c)) = length (lambdas (ee_load c)) \<and>
   length (bounds (UpdateBounds c)) = length (lambdas (ee_load c)) \<and>
   (\<forall>k < length (lambdas (ee_load c)).
      g (UpdateConstraintValues c) ! k = sum_list (lambdas (ee_load c) ! k) \<and>
      lower (bounds (UpdateBounds c) ! k) = 1 \<and>
      upper (bounds (UpdateBounds c) ! k) = 1)"
  by (simp add: UpdateConstraintValues_def UpdateBounds_def foldl_add_sum_list)

theorem ConvexityConstraint_rows_witness:
  "(1::nat) < length (lambdas (ee_load example_convexity)) \<and>
   g (UpdateConstraintValues example_convexity) ! 1 = 2 \<and>
   g (UpdateConstraintValues example_convexity) ! 0 = 1 \<and>
   lower (bounds (UpdateBounds example_convexity) ! 1) = 1 \<and>
   upper (bounds (UpdateBounds example_convexity) ! 1) = 1"
proof -
  have l: "(1::nat) < length (lambdas (ee_load example_convexity))"
    "(0::nat) < length (lambdas (ee_load example_convexity))"
    by (simp_all add: example_convexity_def)
  have s: "sum_list (lambdas (ee_load example_convexity) ! 1) = 2"
    "sum_list (lambdas (ee_load example_convexity) ! 0) = 1"
    by (simp_all add: example_convexity_def)
  from ConvexityConstraint_rows [of example_convexity] l s show ?thesis
    by simp
qed

section \<open>Properties of the quadratic cost\<close>

lemma dot_sum_nth:
  assumes "length a = length b"
  shows "dot a b = (\<Sum>i<length a. a ! i * b ! i)"
proof -
  have "dot a b = (\<Sum>i = 0..<length (map2 (*) a b). map2 (*) a b ! i)"
    unfolding dot_def by (rule sum_list_sum_nth)
  also have "\<dots> = (\<Sum>i<length a. a ! i * b ! i)"
    using assms by (simp add: atLeast0LessThan)
  finally show ?thesis .
qed

lemma length_mat_vec: "length (mat_vec A x) = length A"
  by (simp add: mat_vec_def)

lemma nth_mat_vec: "i < length A \<Longrightarrow> mat_vec A x ! i = dot (A ! i) x"
  by (simp add: mat_vec_def)

lemma cost_sum_nth:
  assumes "length x = n" "length v = n" "length A = n" "\<forall>i<n. length (A ! i) = n"
  shows "dot x (mat_vec A x) + dot v x =
    (\<Sum>i<n. x ! i * (\<Sum>j<n. A ! i ! j * x ! j)) + (\<Sum>i<n. v ! i * x ! i)"
proof -
  have "dot x (mat_vec A x) = (\<Sum>i<n. x ! i * mat_vec A x ! i)"
    using assms by (simp add: dot_sum_nth length_mat_vec)
  also have "\<dots> = (\<Sum>i<n. x ! i * (\<Sum>j<n. A ! i ! j * x ! j))"
    using assms by (intro sum.cong refl) (simp add: nth_mat_vec dot_sum_nth)
  finally show ?thesis
    using assms by (simp add: dot_sum_nth)
qed

lemma cost_expand:
  fixes x h v :: VectorXd and A :: MatrixXd
  assumes len: "length x = n" "length h = n" "length v = n" "length A = n"
      "\<forall>i<n. length (A ! i) = n"
    and sym: "\<forall>i<n. \<forall>j<n. A ! i ! j = A ! j ! i"
  shows "dot (map2 (+) x h) (mat_vec A (map2 (+) x h)) + dot v (map2 (+) x h) =
    (dot x (mat_vec A x) + dot v x)
      + dot (map2 (\<lambda>Ax v. 2 * Ax + v) (mat_vec A x) v) h + dot h (mat_vec A h)"
proof -
  let ?a = "\<lambda>i j. A ! i ! j"
  have xh: "length (map2 (+) x h) = n" "\<forall>i<n. map2 (+) x h ! i = x ! i + h ! i"
    using len by simp_all
  have swap: "(\<Sum>i<n. x ! i * (\<Sum>j<n. ?a i j * h ! j)) = (\<Sum>i<n. h ! i * (\<Sum>j<n. ?a i j * x ! j))"
  proof -
    have "(\<Sum>i<n. x ! i * (\<Sum>j<n. ?a i j * h ! j)) = (\<Sum>i<n. \<Sum>j<n. x ! i * ?a i j * h ! j)"
      by (simp add: sum_distrib_left mult.assoc)
    also have "\<dots> = (\<Sum>j<n. \<Sum>i<n. x ! i * ?a i j * h ! j)"
      by (rule sum.swap)
    also have "\<dots> = (\<Sum>j<n. \<Sum>i<n. h ! j * (?a j i * x ! i))"
      using sym by (intro sum.cong refl) (simp add: mult_ac)
    also have "\<dots> = (\<Sum>j<n. h ! j * (\<Sum>i<n. ?a j i * x ! i))"
      by (simp add: sum_distrib_left)
    finally show ?thesis .
  qed
  have grad: "dot (map2 (\<lambda>Ax v. 2 * Ax + v) (mat_vec A x) v) h =
      (\<Sum>i<n. (2 * (\<Sum>j<n. ?a i j * x ! j) + v ! i) * h ! i)"
  proof -
    have "dot (map2 (\<lambda>Ax v. 2 * Ax + v) (mat_vec A x) v) h =
        (\<Sum>i<n. map2 (\<lambda>Ax v. 2 * Ax + v) (mat_vec A x) v ! i * h ! i)"
      using len by (simp add: dot_sum_nth length_mat_vec)
    also have "\<dots> = (\<Sum>i<n. (2 * (\<Sum>j<n. ?a i j * x ! j) + v ! i) * h ! i)"
      using len by (intro sum.cong refl) (simp add: length_mat_vec nth_mat_vec dot_sum_nth)
    finally show ?thesis .
  qed
  have hh: "dot h (mat_vec A h) = (\<Sum>i<n. h ! i * (\<Sum>j<n. ?a i j * h ! j))"
    using cost_sum_nth [of h n "replicate n 0" A] len
    by (simp add: dot_sum_nth)
  have "dot (map2 (+) x h) (mat_vec A (map2 (+) x h)) + dot v (map2 (+) x h) =
      (\<Sum>i<n. (x ! i + h ! i) * (\<Sum>j<n. ?a i j * (x ! j + h ! j))) + (\<Sum>i<n. v ! i * (x ! i + h ! i))"
    using cost_sum_nth [OF xh(1) len(3) len(4) len(5)] xh(2) by simp
  also have "\<dots> = ((\<Sum>i<n. x ! i * (\<Sum>j<n. ?a i j * x ! j)) + (\<Sum>i<n. v ! i * x ! i))
      + ((\<Sum>i<n. x ! i * (\<Sum>j<n. ?a i j * h ! j)) + (\<Sum>i<n. h ! i * (\<Sum>j<n. ?a i j * x ! j))
          + (\<Sum>i<n. v ! i * h ! i))
      + (\<Sum>i<n. h ! i * (\<Sum>j<n. ?a i j * h ! j))"
    by (simp add: algebra_simps sum.distrib)
  also have "\<dots> = (dot x (mat_vec A x) + dot v x)
      + (\<Sum>i<n. (2 * (\<Sum>j<n. ?a i j * x ! j) + v ! i) * h ! i)
      + (\<Sum>i<n. h ! i * (\<Sum>j<n. ?a i j * h ! j))"
  proof -
    have "(\<Sum>i<n. (2 * (\<Sum>j<n. ?a i j * x ! j) + v ! i) * h ! i) =
        (\<Sum>i<n. h ! i * (\<Sum>j<n. ?a i j * x ! j) + h ! i * (\<Sum>j<n. ?a i j * x ! j)
                + v ! i * h ! i)"
      by (intro sum.cong refl) (simp add: algebra_simps)
    also have "\<dots> = (\<Sum>i<n. h ! i * (\<Sum>j<n. ?a i j * x ! j))
        + (\<Sum>i<n. h ! i * (\<Sum>j<n. ?a i j * x ! j)) + (\<Sum>i<n. v ! i * h ! i)"
      by (simp only: sum.distrib)
    finally show ?thesis
      unfolding swap cost_sum_nth [OF len(1) len(3) len(4) len(5)] by simp
  qed
  finally show ?thesis
    unfolding grad hh .
qed

lemma dot_scale: "dot (map (\<lambda>d. w * d) a) b = w * dot a b"
proof (induction a arbitrary: b)
  case Nil
  then show ?case by (simp add: dot_def)
next
  case (Cons d a)
  then show ?case by (cases b) (simp_all add: dot_def algebra_simps)
qed

text \<open>
  C5. With coefficients \<open>x\<close>, matrix \<open>A\<close> (the spec's \<open>M\<close>), vector \<open>v\<close> and weight \<open>w\<close>, the
  cost is \<open>w * (x\<^sup>T A x + v\<^sup>T x)\<close>; the Jacobian row with respect to the owning variable
  set is \<open>w * (2 A x + v)\<close> and the row with respect to any other variable set is zero.
  For the identity matrix, \<open>v = 0\<close>, weight \<open>2\<close> and \<open>x = [1, 1]\<close> the cost is \<open>4\<close> and the
  derivative is \<open>[4, 4]\<close>. That row is the derivative of the cost: for a symmetric
  square \<open>A\<close>, moving the coefficients by \<open>h\<close> changes the cost by the row times \<open>h\<close>
  plus the second-order term \<open>w * h\<^sup>T A h\<close>.
\<close>

theorem QuadraticPolynomialCost_value_and_derivative:
  fixes c :: QuadraticPolynomialCost
  defines "x \<equiv> GetCoefficients (com_motion c)"
    and "A \<equiv> mat_M (matrix_vector c)"
    and "v \<equiv> vec_v (matrix_vector c)"
  shows "GetValues c = [weight c * (dot x (mat_vec A x) + dot v x)] \<and>
    GetJacobianWithRespectTo c (GetID (com_motion c)) n_var =
      map2 (\<lambda>Ax v. weight c * (2 * Ax + v)) (mat_vec A x) v \<and>
    (var_set \<noteq> GetID (com_motion c) \<longrightarrow>
      GetJacobianWithRespectTo c var_set n_var = replicate n_var 0) \<and>
    GetValues example_cost = [4] \<and>
    GetJacobianWithRespectTo example_cost (GetID (com_motion example_cost)) 2 = [4, 4] \<and>
    GetJacobianWithRespectTo example_cost ''ee_motion_0'' 2 = [0, 0] \<and>
    (length x = n \<and> length h = n \<and> length v = n \<and> length A = n \<and>
     (\<forall>i<n. length (A ! i) = n) \<and> (\<forall>i<n. \<forall>j<n. A ! i ! j = A ! j ! i) \<longrightarrow>
       GetValues (c\<lparr>com_motion := (com_motion c)\<lparr>GetCoefficients := map2 (+) x h\<rparr>\<rparr>) =
         [weight c * (dot x (mat_vec A x) + dot v x)
            + dot (GetJacobianWithRespectTo c (GetID (com_motion c)) n_var) h
            + weight c * dot h (mat_vec A h)])"
proof (intro conjI impI)
  show "GetValues c = [weight c * (dot x (mat_vec A x) + dot v x)]"
    by (simp add: GetValues_def Let_def x_def A_def v_def)
  show jac: "GetJacobianWithRespectTo c (GetID (com_motion c)) n_var =
      map2 (\<lambda>Ax v. weight c * (2 * Ax + v)) (mat_vec A x) v"
    by (auto simp: GetJacobianWithRespectTo_def FillJacobianWithRespectTo_def Let_def
        x_def A_def v_def)
  show "GetJacobianWithRespectTo c var_set n_var = replicate n_var 0"
    if "var_set \<noteq> GetID (com_motion c)"
    using that by (simp add: GetJacobianWithRespectTo_def FillJacobianWithRespectTo_def)
  show "GetValues example_cost = [4]"
    by (simp add: GetValues_def Let_def example_cost_def dot_def mat_vec_def)
  show "GetJacobianWithRespectTo example_cost (GetID (com_motion example_cost)) 2 = [4, 4]"
    by (simp add: GetJacobianWithRespectTo_def FillJacobianWithRespectTo_def Let_def
        example_cost_def dot_def mat_vec_def)
  show "GetJacobianWithRespectTo example_cost ''ee_motion_0'' 2 = [0, 0]"
    by (simp add: GetJacobianWithRespectTo_def FillJacobianWithRespectTo_def example_cost_def
        numeral_2_eq_2)
  show "GetValues (c\<lparr>com_motion := (com_motion c)\<lparr>GetCoefficients := map2 (+) x h\<rparr>\<rparr>) =
         [weight c * (dot x (mat_vec A x) + dot v x)
            + dot (GetJacobianWithRespectTo c (GetID (com_motion c)) n_var) h
            + weight c * dot h (mat_vec A h)]"
    if a: "length x = n \<and> length h = n \<and> length v = n \<and> length A = n \<and>
     (\<forall>i<n. length (A ! i) = n) \<and> (\<forall>i<n. \<forall>j<n. A ! i ! j = A ! j ! i)"
  proof -
    have j: "GetJacobianWithRespectTo c (GetID (com_motion c)) n_var =
        map (\<lambda>d. weight c * d) (map2 (\<lambda>Ax v. 2 * Ax + v) (mat_vec A x) v)"
      by (simp add: GetJacobianWithRespectTo_def FillJacobianWithRespectTo_def Let_def
          x_def A_def v_def)
    let ?grad = "map2 (\<lambda>Ax v. 2 * Ax + v) (mat_vec A x) v"
    have e: "dot (map2 (+) x h) (mat_vec A (map2 (+) x h)) + dot v (map2 (+) x h) =
        (dot x (mat_vec A x) + dot v x) + dot ?grad h + dot h (mat_vec A h)"
      using a by (intro cost_expand [where n = n]) simp_all
    have "GetValues (c\<lparr>com_motion := (com_motion c)\<lparr>GetCoefficients := map2 (+) x h\<rparr>\<rparr>) =
        [weight c * (dot (map2 (+) x h) (mat_vec A (map2 (+) x h)) + dot v (map2 (+) x h))]"
      by (simp add: GetValues_def Let_def A_def v_def)
    also have "\<dots> = [weight c * ((dot x (mat_vec A x) + dot v x) + dot ?grad h + dot h (mat_vec A h))]"
      unfolding e ..
    also have "\<dots> = [weight c * (dot x (mat_vec A x) + dot v x) + weight c * dot ?grad h
        + weight c * dot h (mat_vec A h)]"
      by (simp only: distrib_left)
    also have "weight c * dot ?grad h = dot (GetJacobianWithRespectTo c (GetID (com_motion c)) n_var) h"
      unfolding j dot_scale ..
    finally show ?thesis .
  qed
qed

theorem QuadraticPolynomialCost_value_and_derivative_witness:
  "''ee_motion_0'' \<noteq> GetID (com_motion example_cost) \<and>
   GetJacobianWithRespectTo example_cost ''ee_motion_0'' 2 = [0, 0] \<and>
   length (GetCoefficients (com_motion example_cost)) = 2 \<and>
   GetValues (example_cost\<lparr>com_motion :=
       (com_motion example_cost)\<lparr>GetCoefficients := [1 + 1 / 2, 1 + - 1]\<rparr>\<rparr>) = [9 / 2]"
proof -
  let ?x = "GetCoefficients (com_motion example_cost)"
  let ?A = "mat_M (matrix_vector example_cost)"
  let ?v = "vec_v (matrix_vector example_cost)"
  have x: "?x = [1, 1]" and A: "?A = [[1, 0], [0, 1]]" and v: "?v = [0, 0]"
    and id: "GetID (com_motion example_cost) = ''base_motion''"
    and w: "weight example_cost = 2"
    by (simp_all add: example_cost_def)
  have dims: "length ?x = 2 \<and> length [1 / 2, - 1 :: real] = 2 \<and> length ?v = 2 \<and> length ?A = 2 \<and>
     (\<forall>i<2. length (?A ! i) = 2) \<and> (\<forall>i<2. \<forall>j<2. ?A ! i ! j = ?A ! j ! i)"
    unfolding x A v by (simp add: numeral_2_eq_2 All_less_Suc)
  have ne: "''ee_motion_0'' \<noteq> GetID (com_motion example_cost)"
    by (simp add: id)
  note inst = QuadraticPolynomialCost_value_and_derivative
    [where c = example_cost and var_set = "''ee_motion_0''" and n_var = 2 and n = 2
      and h = "[1 / 2, - 1]"]
  from inst ne have zero: "GetJacobianWithRespectTo example_cost ''ee_motion_0'' 2 = [0, 0]"
    by (simp add: numeral_2_eq_2)
  from inst dims have
    "GetValues (example_cost\<lparr>com_motion :=
        (com_motion example_cost)\<lparr>GetCoefficients := map2 (+) ?x [1 / 2, - 1]\<rparr>\<rparr>) =
       [weight example_cost * (dot ?x (mat_vec ?A ?x) + dot ?v ?x)
          + dot (GetJacobianWithRespectTo example_cost (GetID (com_motion example_cost)) 2) [1 / 2, - 1]
          + weight example_cost * dot [1 / 2, - 1] (mat_vec ?A [1 / 2, - 1])]"
    by blast
  moreover from inst have
    "GetJacobianWithRespectTo example_cost (GetID (com_motion example_cost)) 2 = [4, 4]"
    by blast
  ultimately have "GetValues (example_cost\<lparr>com_motion :=
       (com_motion example_cost)\<lparr>GetCoefficients := [1 + 1 / 2, 1 + - 1]\<rparr>\<rparr>) = [9 / 2]"
    unfolding x A v w by (simp add: dot_def mat_vec_def)
  with ne zero x show ?thesis by simp
qed

end
